theory Spec2Isabelle
  imports Complex_Main "HOL-Library.AList" "HOL-Library.Sublist"
begin

section \<open>Python values seen by the MAD-X loader\<close>

text \<open>
  A scalar parameter is either a Python number or a symbolic expression node of the
  expression library, that is an object with a \<open>_get_value\<close> method. Python floats
  are IEEE double precision numbers; they are kept as the real numbers they denote,
  and the rounding of a sum is written out below. An expression node is represented
  by its current value, which is what both \<open>_get_value()\<close> and \<open>_value\<close>
  return. Attribute values are scalars, lists of scalars or strings.
\<close>

datatype val = Num real | Expr real

datatype pyval = V val | L "val list" | S string

datatype error =
    AttributeError string
  | ValueError string
  | NotImplementedError string
  | IndexError
  | TypeError
  | AssertionError string

definition ebind :: "error + 'a \<Rightarrow> ('a \<Rightarrow> error + 'b) \<Rightarrow> error + 'b" where
  "ebind r f = (case r of Inl e \<Rightarrow> Inl e | Inr x \<Rightarrow> f x)"

text \<open>\<open>is_expr(x)\<close> is \<open>hasattr(x, "_get_value")\<close>.\<close>

fun is_expr :: "pyval \<Rightarrow> bool" where
  "is_expr (V (Expr _)) = True"
| "is_expr _ = False"

fun value_of :: "val \<Rightarrow> real" where
  "value_of (Num r) = r"
| "value_of (Expr v) = v"

text \<open>
  \<open>get_value\<close>: an expression gives its value, a list is mapped, anything else is
  returned as it is. (The branches for arrays and dictionaries are not needed here:
  no attribute of a source element view is one.)
\<close>

fun get_value :: "pyval \<Rightarrow> pyval" where
  "get_value (V v) = V (Num (value_of v))"
| "get_value (L xs) = L (map (\<lambda>x. Num (value_of x)) xs)"
| "get_value (S s) = S s"

fun value_if_expr :: "pyval \<Rightarrow> pyval" where
  "value_if_expr (V (Expr v)) = V (Num v)"
| "value_if_expr x = x"

text \<open>
  Python's \<open>x != 0\<close> and \<open>x == 0\<close>. On a number they compare. On an expression
  node \<open>x != 0\<close> is truthy whatever the value of the node is (the module's docstring
  warns about it), and \<open>x == 0\<close> compares the node object with the number, which
  are different objects. A list or a string is never equal to \<open>0\<close>.
\<close>

fun py_ne_zero :: "pyval \<Rightarrow> bool" where
  "py_ne_zero (V (Num r)) = (r \<noteq> 0)"
| "py_ne_zero (V (Expr _)) = True"
| "py_ne_zero (L _) = True"
| "py_ne_zero (S _) = True"

fun py_eq_zero :: "pyval \<Rightarrow> bool" where
  "py_eq_zero (V (Num r)) = (r = 0)"
| "py_eq_zero (V (Expr _)) = False"
| "py_eq_zero (L _) = False"
| "py_eq_zero (S _) = False"

text \<open>Truth value of an object in a condition (\<open>if x:\<close>).\<close>

fun truthy_val :: "val \<Rightarrow> bool" where
  "truthy_val (Num r) = (r \<noteq> 0)"
| "truthy_val (Expr _) = True"

fun truthy :: "pyval \<Rightarrow> bool" where
  "truthy (V v) = truthy_val v"
| "truthy (L xs) = (xs \<noteq> [])"
| "truthy (S s) = (s \<noteq> [])"

definition nonzero_or_expr :: "pyval \<Rightarrow> bool" where
  "nonzero_or_expr x = (if is_expr x then True else py_ne_zero x)"

text \<open>
  The sum of two floats is the exact sum rounded to the nearest double, a tie going
  to the even significand. A double \<open>x\<close> with \<open>2^e \<le> |x| < 2^(e+1)\<close> is a multiple
  of \<open>2^(e-52)\<close>, the unit in its last place; the exponent \<open>e\<close> is at least
  \<open>-1022\<close>, below which the unit stays \<open>2^(-1074)\<close>. \<open>fl\<close> rounds a real
  number to this grid. A sum beyond the largest double, which the machine gives as
  an infinity, has no counterpart among the reals.
\<close>

definition pow2 :: "int \<Rightarrow> real" where
  "pow2 e = (if 0 \<le> e then 2 ^ nat e else 1 / 2 ^ nat (- e))"

definition round_even :: "real \<Rightarrow> int" where
  "round_even x =
     (let n = \<lfloor>x\<rfloor>; r = x - of_int n
      in if r < 1 / 2 then n else if 1 / 2 < r then n + 1 else if even n then n else n + 1)"

definition ulp :: "real \<Rightarrow> real" where
  "ulp x = pow2 (max \<lfloor>log 2 \<bar>x\<bar>\<rfloor> (- 1022) - 52)"

definition fl :: "real \<Rightarrow> real" where
  "fl x = (if x = 0 then 0 else of_int (round_even (x / ulp x)) * ulp x)"

definition fadd :: "real \<Rightarrow> real \<Rightarrow> real" where
  "fadd a b = fl (a + b)"

definition max_double :: real where
  "max_double = (2 ^ 53 - 1) * 2 ^ 971"

text \<open>
  Arithmetic: a result is an expression node as soon as one operand is, and the
  value of such a node is computed with the same float operations. Products,
  quotients and the tangent are kept as the exact real results. A quotient by zero,
  which numpy gives as an infinity, has no counterpart either: in the model it is
  the \<open>0\<close> of the reals.
\<close>

fun vadd :: "val \<Rightarrow> val \<Rightarrow> val" where
  "vadd (Num a) (Num b) = Num (fadd a b)"
| "vadd a b = Expr (fadd (value_of a) (value_of b))"

fun vmul :: "val \<Rightarrow> val \<Rightarrow> val" where
  "vmul (Num a) (Num b) = Num (a * b)"
| "vmul a b = Expr (value_of a * value_of b)"

fun vdiv :: "val \<Rightarrow> val \<Rightarrow> val" where
  "vdiv (Num a) (Num b) = Num (a / b)"
| "vdiv a b = Expr (value_of a / value_of b)"

fun vneg :: "val \<Rightarrow> val" where
  "vneg (Num a) = Num (- a)"
| "vneg (Expr a) = Expr (- a)"

definition rad2deg :: "val \<Rightarrow> val" where
  "rad2deg rad = vdiv (vmul rad (Num 180)) (Num pi)"

section \<open>Source records and their views\<close>

text \<open>
  A parameter of a source record (\<open>elem.cmdpar[k]\<close>) has a value and, possibly, the
  text of an expression: one text per entry for a list.
\<close>

datatype cpar =
    ParNum real "string option"
  | ParList "real list" "string option list"
  | ParStr string

text \<open>
  A command with its chain of parents. \<open>Root n\<close> is a command that is its own
  parent, as the built-in types are.
\<close>

datatype cmd = Root string | Child string cmd

fun cmd_name :: "cmd \<Rightarrow> string" where
  "cmd_name (Root n) = n"
| "cmd_name (Child n _) = n"

text \<open>
  The alignment errors of a record: the fields that the loader reads, and the rest.
\<close>

record align_err =
  ae_dx :: real
  ae_dy :: real
  ae_dpsi :: real
  ae_arex :: real
  ae_arey :: real
  ae_rest :: "real list"

text \<open>
  A raw source record: its command with the chain of parents (the record's name is
  the name of the command), the name of its base type, its parameters, and its field
  and alignment errors when it has them.
\<close>

record cpy_elem =
  el_cmd :: cmd
  base_type_name :: string
  cmdpar :: "(string \<times> cpar) list"
  el_field_errors :: "(real list \<times> real list) option"
  el_align_errors :: "align_err option"

definition el_name :: "cpy_elem \<Rightarrow> string" where
  "el_name el = cmd_name (el_cmd el)"

text \<open>
  A view of a record (\<open>MadElem\<close>): its name, the record, the evaluator of
  expressions when there is one, a copy of the field errors, and the attributes that
  were assigned on the view after its construction.
\<close>

record field_errs =
  dkn :: "real list"
  dks :: "real list"

record madelem =
  name :: string
  elem :: cpy_elem
  madeval :: "(string \<Rightarrow> val) option"
  field_errors :: "field_errs option"
  attrs :: "(string \<times> pyval) list"

text \<open>The value of a parameter, as an attribute of the raw record gives it.\<close>

fun par_value :: "cpar \<Rightarrow> pyval" where
  "par_value (ParNum v _) = V (Num v)"
| "par_value (ParList vs _) = L (map Num vs)"
| "par_value (ParStr s) = S s"

definition raw_getattr :: "cpy_elem \<Rightarrow> string \<Rightarrow> error + pyval" where
  "raw_getattr el k =
     (case map_of (cmdpar el) k of
        None \<Rightarrow> Inl (AttributeError k)
      | Some p \<Rightarrow> Inr (par_value p))"

text \<open>
  \<open>eval_list\<close>: without an evaluator the values; with one, entry by entry, the
  evaluated expression where there is a non-empty expression text, else the value.
  \<open>zip\<close> stops at the shorter list, in Python as here.
\<close>

definition eval_list :: "real list \<Rightarrow> string option list \<Rightarrow> (string \<Rightarrow> val) option \<Rightarrow> val list" where
  "eval_list vs es mv =
     (case mv of
        None \<Rightarrow> map Num vs
      | Some f \<Rightarrow>
          map (\<lambda>(v, e). case e of None \<Rightarrow> Num v
                             | Some t \<Rightarrow> if t \<noteq> [] then f t else Num v) (zip vs es))"

text \<open>
  \<open>MadElem.__getattr__\<close>, behind the attributes that were assigned on the view
  itself (\<open>attrs\<close>), which Python finds first.
\<close>

definition par_view :: "(string \<Rightarrow> val) option \<Rightarrow> cpar \<Rightarrow> pyval" where
  "par_view mv p =
     (case p of
        ParList vs es \<Rightarrow> L (eval_list vs es mv)
      | ParStr s \<Rightarrow> S s
      | ParNum v e \<Rightarrow>
          (case (mv, e) of
             (Some f, Some t) \<Rightarrow> V (f t)
           | _ \<Rightarrow> V (Num v)))"

definition mtype :: "madelem \<Rightarrow> string" where
  "mtype m = base_type_name (elem m)"

definition getattr :: "madelem \<Rightarrow> string \<Rightarrow> error + pyval" where
  "getattr m k =
     (case map_of (attrs m) k of
        Some v \<Rightarrow> Inr v
      | None \<Rightarrow>
          (case map_of (cmdpar (elem m)) k of
             None \<Rightarrow> Inl (AttributeError
                (''Element `'' @ name m @ '': '' @ mtype m @ ''` has no attribute `'' @ k @ ''`''))
           | Some p \<Rightarrow> Inr (par_view (madeval m) p)))"

definition setattr :: "madelem \<Rightarrow> string \<Rightarrow> pyval \<Rightarrow> madelem" where
  "setattr m k v = m\<lparr>attrs := AList.update k v (attrs m)\<rparr>"

text \<open>\<open>MadElem.get(key, default)\<close>: \<open>hasattr\<close> swallows the attribute error.\<close>

definition get_default :: "madelem \<Rightarrow> string \<Rightarrow> pyval \<Rightarrow> pyval" where
  "get_default m k d = (case getattr m k of Inr v \<Rightarrow> v | Inl _ \<Rightarrow> d)"

fun get_type_hierarchy :: "cmd \<Rightarrow> string list" where
  "get_type_hierarchy (Root n) = [n]"
| "get_type_hierarchy (Child n p) =
     (if n = cmd_name p then [n] else n # get_type_hierarchy p)"

fun join :: "string \<Rightarrow> string list \<Rightarrow> string" where
  "join sep [] = []"
| "join sep [x] = x"
| "join sep (x # y # ys) = x @ sep @ join sep (y # ys)"

text \<open>
  The constructor of a view. A record other than a translation that carries a
  permanent misalignment is refused. The \<open>or\<close> chain reads the six attributes in
  order and stops at the first truthy one.
\<close>

fun any_truthy_attr :: "cpy_elem \<Rightarrow> string list \<Rightarrow> error + bool" where
  "any_truthy_attr el [] = Inr False"
| "any_truthy_attr el (k # ks) =
     ebind (raw_getattr el k) (\<lambda>v. if truthy v then Inr True else any_truthy_attr el ks)"

definition MadElem :: "string \<Rightarrow> cpy_elem \<Rightarrow> (string \<Rightarrow> val) option \<Rightarrow> string option \<Rightarrow> error + madelem" where
  "MadElem nm el mv name_prefix =
     (let m = \<lparr> name = (case name_prefix of None \<Rightarrow> nm | Some p \<Rightarrow> p @ nm),
                elem = el,
                madeval = mv,
                field_errors = (case el_field_errors el of
                                  None \<Rightarrow> None
                                | Some (n, s) \<Rightarrow> Some \<lparr> dkn = n, dks = s \<rparr>),
                attrs = [] \<rparr>
      in if base_type_name el \<noteq> ''translation''
         then ebind (any_truthy_attr el [''dphi'', ''dtheta'', ''dpsi'', ''dx'', ''dy'', ''ds''])
                (\<lambda>b. if b then Inl (NotImplementedError []) else Inr m)
         else Inr m)"

subsection \<open>Structural queries\<close>

text \<open>
  \<open>el.aperture[0] != 0.0 or len(el.aperture) > 1\<close> on the raw attribute: indexing
  an empty list raises, a number cannot be indexed.
\<close>

fun aperture_nontrivial :: "pyval \<Rightarrow> error + bool" where
  "aperture_nontrivial (L []) = Inl IndexError"
| "aperture_nontrivial (L (x # xs)) = Inr (x \<noteq> Num 0 \<or> length (x # xs) > 1)"
| "aperture_nontrivial (S []) = Inl IndexError"
| "aperture_nontrivial (S (c # cs)) = Inr True"
| "aperture_nontrivial (V _) = Inl TypeError"

fun py_len :: "pyval \<Rightarrow> error + nat" where
  "py_len (L xs) = Inr (length xs)"
| "py_len (S s) = Inr (length s)"
| "py_len (V _) = Inl TypeError"

definition has_aperture :: "madelem \<Rightarrow> error + bool" where
  "has_aperture m =
     (let el = elem m in
      ebind (case raw_getattr el ''aperture'' of
               Inl _ \<Rightarrow> Inr False
             | Inr a \<Rightarrow> aperture_nontrivial a)
        (\<lambda>has_aper.
           if has_aper then Inr True
           else (case raw_getattr el ''aper_vx'' of
                   Inl _ \<Rightarrow> Inr False
                 | Inr vx \<Rightarrow> ebind (py_len vx) (\<lambda>n. Inr (n > 2)))))"

definition is_empty_marker :: "madelem \<Rightarrow> error + bool" where
  "is_empty_marker m =
     (if mtype m = ''marker'' then ebind (has_aperture m) (\<lambda>b. Inr (\<not> b)) else Inr False)"

section \<open>Builders and the target collection\<close>

text \<open>
  A builder holds a name, the class of the target element and the keyword arguments
  of its constructor. \<open>b_with_expr\<close> tells the two builder classes apart:
  \<open>ElementBuilder\<close> and \<open>ElementBuilderWithExpr\<close>.
\<close>

record builder =
  b_name :: string
  b_type :: string
  b_attrs :: "(string \<times> pyval) list"
  b_with_expr :: bool

record compound_builder =
  cb_name :: string
  cb_core :: "builder list"
  cb_entry_transform :: "builder list"
  cb_exit_transform :: "builder list"
  cb_aperture :: "builder list"

datatype entry = Plain builder | Compound compound_builder

text \<open>
  A target element is represented by its class and the arguments its constructor
  received; \<open>xt_exprs\<close> are the attributes assigned afterwards through the line's
  references, which keep the expressions.
\<close>

record xt_elem =
  xt_type :: string
  xt_attrs :: "(string \<times> pyval) list"
  xt_exprs :: "(string \<times> pyval) list"

record compound =
  c_core :: "string list"
  c_aperture :: "string list"
  c_entry_transform :: "string list"
  c_exit_transform :: "string list"
  c_entry :: string
  c_exit :: string

record line =
  element_dict :: "(string \<times> xt_elem) list"
  element_names :: "string list"
  compound_container :: "(string \<times> compound) list"

definition empty_line :: line where
  "empty_line = \<lparr> element_dict = [], element_names = [], compound_container = [] \<rparr>"

definition dict_keys :: "line \<Rightarrow> string list" where
  "dict_keys l = map fst (element_dict l)"

subsection \<open>Decimal text of a natural number\<close>

definition digit_char :: "nat \<Rightarrow> char" where
  "digit_char d = ''0123456789'' ! d"

fun str_nat :: "nat \<Rightarrow> string" where
  "str_nat n = (if n < 10 then [digit_char n] else str_nat (n div 10) @ [digit_char (n mod 10)])"

declare str_nat.simps [simp del]

lemma digit_char_inj: "a < 10 \<Longrightarrow> b < 10 \<Longrightarrow> digit_char a = digit_char b \<Longrightarrow> a = b"
proof -
  have code: "of_char (digit_char d) = (48 + d :: nat)" if "d < 10" for d
  proof -
    from that have "d \<in> {0, 1, 2, 3, 4, 5, 6, 7, 8, 9}" by auto
    then show ?thesis by (auto simp: digit_char_def)
  qed
  assume a: "a < 10" and b: "b < 10" and e: "digit_char a = digit_char b"
  have "48 + a = (of_char (digit_char a) :: nat)"
    by (simp only: code [OF a])
  also have "\<dots> = of_char (digit_char b)"
    by (simp only: e)
  also have "\<dots> = 48 + b"
    by (rule code [OF b])
  finally show "a = b" by simp
qed

lemma str_nat_nonempty: "str_nat n \<noteq> []"
  by (subst str_nat.simps) simp

lemma str_nat_inj: "str_nat m = str_nat n \<Longrightarrow> m = n"
proof (induction m arbitrary: n rule: str_nat.induct)
  case (1 m)
  show ?case
  proof (cases "m < 10")
    case True
    show ?thesis
    proof (cases "n < 10")
      case True
      with \<open>m < 10\<close> "1.prems" show ?thesis
        by (simp add: str_nat.simps [of m] str_nat.simps [of n] digit_char_inj)
    next
      case False
      with \<open>m < 10\<close> "1.prems" show ?thesis
        by (simp add: str_nat.simps [of m] str_nat.simps [of n] str_nat_nonempty [symmetric])
    qed
  next
    case False
    show ?thesis
    proof (cases "n < 10")
      case True
      with False "1.prems" show ?thesis
        by (simp add: str_nat.simps [of m] str_nat.simps [of n] str_nat_nonempty)
    next
      case nf: False
      from False nf "1.prems"
      have eq: "str_nat (m div 10) = str_nat (n div 10)"
        and d: "digit_char (m mod 10) = digit_char (n mod 10)"
        by (simp_all add: str_nat.simps [of m] str_nat.simps [of n])
      from "1.IH" [OF False eq] have "m div 10 = n div 10" .
      moreover from d have "m mod 10 = n mod 10"
        by (intro digit_char_inj) simp_all
      ultimately show ?thesis
        by (metis div_mult_mod_eq)
    qed
  qed
qed

subsection \<open>Names that are not taken\<close>

text \<open>The candidate name \<open>f"{name}:{ii}"\<close>.\<close>

definition suffixed :: "string \<Rightarrow> nat \<Rightarrow> string" where
  "suffixed nm ii = nm @ '':'' @ str_nat ii"

lemma suffixed_inj: "suffixed nm i = suffixed nm j \<Longrightarrow> i = j"
  by (simp add: suffixed_def str_nat_inj)

lemma finite_suffix_indices: "finite {j. suffixed nm j \<in> set ks}"
proof -
  have "{j. suffixed nm j \<in> set ks} = suffixed nm -` set ks" by auto
  moreover have "inj (suffixed nm)" by (rule injI) (rule suffixed_inj)
  ultimately show ?thesis by (simp add: finite_vimageI)
qed

text \<open>
  The \<open>while\<close> loop of \<open>generate_repeated_name\<close>. It ends because the dictionary
  has finitely many keys and the candidates are pairwise different.
\<close>

function first_unused :: "line \<Rightarrow> string \<Rightarrow> nat \<Rightarrow> nat" where
  "first_unused l nm ii =
     (if suffixed nm ii \<in> set (dict_keys l) then first_unused l nm (Suc ii) else ii)"
  by pat_completeness auto

termination
proof (relation "measure (\<lambda>(l, nm, ii). card {j. ii \<le> j \<and> suffixed nm j \<in> set (dict_keys l)})")
  show "wf (measure (\<lambda>(l, nm, ii). card {j. ii \<le> j \<and> suffixed nm j \<in> set (dict_keys l)}))"
    by simp
next
  fix l :: line and nm :: string and ii :: nat
  assume h: "suffixed nm ii \<in> set (dict_keys l)"
  let ?A = "\<lambda>i. {j. i \<le> j \<and> suffixed nm j \<in> set (dict_keys l)}"
  have fin: "finite (?A ii)"
    by (rule finite_subset [OF _ finite_suffix_indices [of nm "dict_keys l"]]) auto
  have "?A (Suc ii) \<subseteq> ?A ii" by auto
  moreover have "ii \<in> ?A ii" using h by simp
  moreover have "ii \<notin> ?A (Suc ii)" by simp
  ultimately have "?A (Suc ii) \<subset> ?A ii" by blast
  then have "card (?A (Suc ii)) < card (?A ii)"
    by (rule psubset_card_mono [OF fin])
  then show "((l, nm, Suc ii), (l, nm, ii))
      \<in> measure (\<lambda>(l, nm, ii). card {j. ii \<le> j \<and> suffixed nm j \<in> set (dict_keys l)})"
    by simp
qed

declare first_unused.simps [simp del]

definition generate_repeated_name :: "line \<Rightarrow> string \<Rightarrow> string" where
  "generate_repeated_name l nm =
     (if nm \<in> set (dict_keys l) then suffixed nm (first_unused l nm 0) else nm)"

subsection \<open>Materialising builders\<close>

text \<open>
  Modelled from the spec: \<open>Line.append_element\<close> is not among the sources. The
  target collection is an ordered sequence of named elements: the element is stored
  in the dictionary under the name (as a Python dictionary stores it: in place when
  the key exists, at the end otherwise) and the name is added at the end of the
  sequence of names.
\<close>

definition append_element :: "line \<Rightarrow> xt_elem \<Rightarrow> string \<Rightarrow> line" where
  "append_element l xtel nm =
     l\<lparr> element_dict := AList.update nm xtel (element_dict l),
        element_names := element_names l @ [nm] \<rparr>"

text \<open>
  Modelled from the spec: \<open>define_compound\<close> of the compound registry is not among
  the sources. The registry maps the logical name to the names of its constituents.
\<close>

definition define_compound :: "line \<Rightarrow> string \<Rightarrow> compound \<Rightarrow> line" where
  "define_compound l nm c = l\<lparr> compound_container := AList.update nm c (compound_container l) \<rparr>"

text \<open>
  \<open>add_to_line\<close> of both builder classes. The expression-linked builder constructs
  the element from the current values and then assigns every attribute through the
  line's references.
\<close>

definition add_to_line :: "builder \<Rightarrow> line \<Rightarrow> line" where
  "add_to_line b l =
     (let xtel = (if b_with_expr b
                  then \<lparr> xt_type = b_type b,
                         xt_attrs = map (\<lambda>(k, v). (k, get_value v)) (b_attrs b),
                         xt_exprs = b_attrs b \<rparr>
                  else \<lparr> xt_type = b_type b, xt_attrs = b_attrs b, xt_exprs = [] \<rparr>);
          nm = generate_repeated_name l (b_name b)
      in append_element l xtel nm)"

definition compound_add_to_line :: "compound_builder \<Rightarrow> line \<Rightarrow> line" where
  "compound_add_to_line cb l =
     (let start_marker = \<lparr> b_name = cb_name cb @ ''_entry'', b_type = ''Marker'',
                            b_attrs = [], b_with_expr = False \<rparr>;
          end_marker = \<lparr> b_name = cb_name cb @ ''_exit'', b_type = ''Marker'',
                          b_attrs = [], b_with_expr = False \<rparr>;
          component_elements =
            [start_marker] @ cb_aperture cb @ cb_entry_transform cb @ cb_core cb
            @ cb_exit_transform cb @ [end_marker];
          l' = fold add_to_line component_elements l
      in define_compound l' (cb_name cb)
           \<lparr> c_core = map b_name (cb_core cb),
             c_aperture = map b_name (cb_aperture cb),
             c_entry_transform = map b_name (cb_entry_transform cb),
             c_exit_transform = map b_name (cb_exit_transform cb),
             c_entry = b_name start_marker,
             c_exit = b_name end_marker \<rparr>)"

fun entry_add_to_line :: "entry \<Rightarrow> line \<Rightarrow> line" where
  "entry_add_to_line (Plain b) l = add_to_line b l"
| "entry_add_to_line (Compound cb) l = compound_add_to_line cb l"

definition add_elements :: "entry list \<Rightarrow> line \<Rightarrow> line" where
  "add_elements elements l = fold entry_add_to_line elements l"

section \<open>The loader's options\<close>

text \<open>
  The options of \<open>MadLoader\<close>, after the constructor has resolved the defaults.
  \<open>Builder_with_expr\<close> is the loader's current builder class (\<open>self.Builder\<close>):
  true for the expression-linked one. The conversion rules of the class that are not
  modelled below are parameters: \<open>other_converters t\<close> is the rule of element type
  \<open>t\<close>, with the diagnostics it prints, and \<open>other_aperture_converters t\<close> is such a
  rule called for an aperture type.
\<close>

record loader =
  enable_expressions :: bool
  enable_field_errors :: bool
  enable_align_errors :: bool
  enable_apertures :: bool
  skip_markers :: bool
  merge_drifts :: bool
  merge_multipoles :: bool
  ignore_madtypes :: "string list"
  expressions_for_element_types :: "string list option"
  allow_thick :: bool
  use_compound_elements :: bool
  name_prefix :: "string option"
  Builder_with_expr :: bool
  other_converters :: "string \<Rightarrow> madelem \<Rightarrow> error + (string list \<times> entry list)"
  other_aperture_converters :: "string \<Rightarrow> madelem \<Rightarrow> error + builder list"

subsection \<open>The thin-element check\<close>

definition assert_element_is_thin :: "loader \<Rightarrow> madelem \<Rightarrow> error + unit" where
  "assert_element_is_thin self mad_el =
     ebind (getattr mad_el ''l'') (\<lambda>l.
       if py_ne_zero (value_if_expr l) then
         (if allow_thick self then
            Inl (NotImplementedError
              (''Cannot load element '' @ name mad_el @ '', as thick elements of type ''
               @ join ''/'' (get_type_hierarchy (el_cmd (elem mad_el)))
               @ '' are not yet supported.''))
          else
            Inl (ValueError
              (''Element '' @ name mad_el @ '' is thick, but importing thick elements is ''
               @ ''disabled. Did you forget to set `allow_thick=True`?'')))
       else Inr ())"

section \<open>Alignment transforms\<close>

text \<open>
  Python's \<open>+\<close> and \<open>+=\<close> on attribute values: numbers and expressions add, lists
  and strings concatenate. Lists hold scalars only, so extending a list by a
  string is outside the model and is given as a type error, like the other mixed cases.
\<close>

fun py_add :: "pyval \<Rightarrow> pyval \<Rightarrow> error + pyval" where
  "py_add (V a) (V b) = Inr (V (vadd a b))"
| "py_add (L a) (L b) = Inr (L (a @ b))"
| "py_add (S a) (S b) = Inr (S (a @ b))"
| "py_add _ _ = Inl TypeError"

text \<open>
  The state of an \<open>Alignment\<close> object. The offsets are plain numbers (0, or taken
  from the alignment-error record). The tilt is kept as a scalar: a tilt attribute
  that is an empty list or string is falsy and is never used in arithmetic once the
  constructor has returned, so it is kept as 0.
\<close>

record alignment =
  al_name :: string
  al_tilt :: val
  al_dx :: real
  al_dy :: real
  al_with_expr :: bool

fun scalar_or_falsy :: "pyval \<Rightarrow> val" where
  "scalar_or_falsy (V v) = v"
| "scalar_or_falsy _ = Num 0"

definition Alignment :: "madelem \<Rightarrow> bool \<Rightarrow> bool \<Rightarrow> val option \<Rightarrow> error + alignment" where
  "Alignment mad_el enable_errors with_expr custom_tilt =
     (let tilt0 = get_default mad_el ''tilt'' (V (Num 0)) in
      ebind (if truthy tilt0
             then (case tilt0 of V t \<Rightarrow> Inr (V (rad2deg t)) | _ \<Rightarrow> Inl TypeError)
             else Inr tilt0) (\<lambda>tilt1.
      ebind (case custom_tilt of
               None \<Rightarrow> Inr tilt1
             | Some c \<Rightarrow> py_add tilt1 (V (rad2deg c))) (\<lambda>tilt2.
      (case (if enable_errors then el_align_errors (elem mad_el) else None) of
         None \<Rightarrow>
           Inr \<lparr> al_name = name mad_el, al_tilt = scalar_or_falsy tilt2,
                 al_dx = 0, al_dy = 0, al_with_expr = with_expr \<rparr>
       | Some ae \<Rightarrow>
           ebind (py_add tilt2 (V (rad2deg (Num (ae_dpsi ae))))) (\<lambda>tilt3.
             Inr \<lparr> al_name = name mad_el, al_tilt = scalar_or_falsy tilt3,
                   al_dx = ae_dx ae, al_dy = ae_dy ae, al_with_expr = with_expr \<rparr>)))))"

definition alignment_entry :: "alignment \<Rightarrow> builder list" where
  "alignment_entry a =
     (let out = [];
          out = (if truthy_val (al_tilt a)
                 then out @ [\<lparr> b_name = al_name a @ ''_tilt_entry'', b_type = ''SRotation'',
                                b_attrs = [(''angle'', V (al_tilt a))],
                                b_with_expr = al_with_expr a \<rparr>]
                 else out);
          out = (if al_dx a \<noteq> 0 \<or> al_dy a \<noteq> 0
                 then out @ [\<lparr> b_name = al_name a @ ''_offset_entry'', b_type = ''XYShift'',
                                b_attrs = [(''dx'', V (Num (al_dx a))), (''dy'', V (Num (al_dy a)))],
                                b_with_expr = al_with_expr a \<rparr>]
                 else out)
      in out)"

definition alignment_exit :: "alignment \<Rightarrow> builder list" where
  "alignment_exit a =
     (let out = [];
          out = (if al_dx a \<noteq> 0 \<or> al_dy a \<noteq> 0
                 then out @ [\<lparr> b_name = al_name a @ ''_offset_exit'', b_type = ''XYShift'',
                                b_attrs = [(''dx'', V (Num (- al_dx a))), (''dy'', V (Num (- al_dy a)))],
                                b_with_expr = al_with_expr a \<rparr>]
                 else out);
          out = (if truthy_val (al_tilt a)
                 then out @ [\<lparr> b_name = al_name a @ ''_tilt_exit'', b_type = ''SRotation'',
                                b_attrs = [(''angle'', V (vneg (al_tilt a)))],
                                b_with_expr = al_with_expr a \<rparr>]
                 else out)
      in out)"

text \<open>
  Modelled from the spec: the geometric action of the two transform elements is not
  among the sources. A rotation element with angle \<open>a\<close> (in degrees) rotates the
  transverse coordinates by \<open>a\<close>; an offset element with \<open>(dx, dy)\<close> subtracts the
  offset. \<open>inverse_transform\<close> negates the parameters of an element.
\<close>

definition attr_value :: "builder \<Rightarrow> string \<Rightarrow> real" where
  "attr_value b k = (case map_of (b_attrs b) k of Some (V v) \<Rightarrow> value_of v | _ \<Rightarrow> 0)"

definition transform :: "builder \<Rightarrow> real \<times> real \<Rightarrow> real \<times> real" where
  "transform b p =
     (if b_type b = ''SRotation'' then
        (let th = attr_value b ''angle'' * pi / 180
         in (fst p * cos th + snd p * sin th, - fst p * sin th + snd p * cos th))
      else if b_type b = ''XYShift'' then
        (fst p - attr_value b ''dx'', snd p - attr_value b ''dy'')
      else p)"

fun py_neg :: "pyval \<Rightarrow> pyval" where
  "py_neg (V v) = V (vneg v)"
| "py_neg x = x"

definition inverse_transform :: "builder \<Rightarrow> string \<times> (string \<times> pyval) list" where
  "inverse_transform b = (b_type b, map (\<lambda>(k, v). (k, py_neg v)) (b_attrs b))"

definition transform_kind :: "builder \<Rightarrow> string \<times> (string \<times> pyval) list" where
  "transform_kind b = (b_type b, b_attrs b)"

section \<open>Apertures\<close>

text \<open>
  Attributes that the loader indexes or unpacks are lists. A scalar cannot be indexed.
  A string could, but its characters are not values of this model, so it is refused
  as well.
\<close>

fun as_list :: "pyval \<Rightarrow> error + val list" where
  "as_list (L xs) = Inr xs"
| "as_list _ = Inl TypeError"

definition py_index :: "val list \<Rightarrow> nat \<Rightarrow> error + val" where
  "py_index xs i = (if i < length xs then Inr (xs ! i) else Inl IndexError)"

text \<open>\<open>a, b = xs[:2]\<close> and \<open>h, v, a, b = xs[:4]\<close>: the slice must have the full length.\<close>

definition unpack :: "nat \<Rightarrow> val list \<Rightarrow> error + val list" where
  "unpack n xs =
     (if n \<le> length xs then Inr (take n xs)
      else Inl (ValueError (''not enough values to unpack (expected '' @ str_nat n
                            @ '', got '' @ str_nat (length xs) @ '')'')))"

text \<open>
  \<open>np.tan\<close>: on a number the tangent. On an expression node numpy hands the call
  over to the object, and the expression library answers with another node; no error
  is raised at this point (the comments in \<open>convert_octagon\<close> say that expressions
  fail: that is later, when the node is evaluated). The value of that node is taken
  to be the tangent of the operand's value.
\<close>

fun np_tan :: "val \<Rightarrow> error + val" where
  "np_tan (Num r) = Inr (Num (tan r))"
| "np_tan (Expr r) = Inr (Expr (tan r))"

text \<open>\<open>self.Builder(name, cls, **kwargs)\<close>, with the loader's current builder class.\<close>

definition mk_builder :: "loader \<Rightarrow> string \<Rightarrow> string \<Rightarrow> (string \<times> pyval) list \<Rightarrow> builder" where
  "mk_builder self nm ty kw =
     \<lparr> b_name = nm, b_type = ty, b_attrs = kw, b_with_expr = Builder_with_expr self \<rparr>"

definition attr_list :: "madelem \<Rightarrow> string \<Rightarrow> error + val list" where
  "attr_list m k = ebind (getattr m k) as_list"

definition convert_rectangle :: "loader \<Rightarrow> madelem \<Rightarrow> error + builder list" where
  "convert_rectangle self mad_el =
     ebind (attr_list mad_el ''aperture'') (\<lambda>ap.
     ebind (unpack 2 ap) (\<lambda>hv.
       let h = hv ! 0; v = hv ! 1 in
       Inr [mk_builder self (name mad_el @ ''_aper'') ''LimitRect''
              [(''min_x'', V (vneg h)), (''max_x'', V h),
               (''min_y'', V (vneg v)), (''max_y'', V v)]]))"

definition convert_racetrack :: "loader \<Rightarrow> madelem \<Rightarrow> error + builder list" where
  "convert_racetrack self mad_el =
     ebind (attr_list mad_el ''aperture'') (\<lambda>ap.
     ebind (unpack 4 ap) (\<lambda>q.
       let h = q ! 0; v = q ! 1; a = q ! 2; b = q ! 3 in
       Inr [mk_builder self (name mad_el @ ''_aper'') ''LimitRacetrack''
              [(''min_x'', V (vneg h)), (''max_x'', V h),
               (''min_y'', V (vneg v)), (''max_y'', V v),
               (''a'', V a), (''b'', V b)]]))"

definition convert_ellipse :: "loader \<Rightarrow> madelem \<Rightarrow> error + builder list" where
  "convert_ellipse self mad_el =
     ebind (attr_list mad_el ''aperture'') (\<lambda>ap.
     ebind (unpack 2 ap) (\<lambda>q.
       Inr [mk_builder self (name mad_el @ ''_aper'') ''LimitEllipse''
              [(''a'', V (q ! 0)), (''b'', V (q ! 1))]]))"

definition convert_circle :: "loader \<Rightarrow> madelem \<Rightarrow> error + builder list" where
  "convert_circle self mad_el =
     ebind (attr_list mad_el ''aperture'') (\<lambda>ap.
     ebind (py_index ap 0) (\<lambda>a.
       Inr [mk_builder self (name mad_el @ ''_aper'') ''LimitEllipse''
              [(''a'', V a), (''b'', V a)]]))"

definition convert_rectellipse :: "loader \<Rightarrow> madelem \<Rightarrow> error + builder list" where
  "convert_rectellipse self mad_el =
     ebind (attr_list mad_el ''aperture'') (\<lambda>ap.
     ebind (unpack 4 ap) (\<lambda>q.
       let h = q ! 0; v = q ! 1; a = q ! 2; b = q ! 3 in
       Inr [mk_builder self (name mad_el @ ''_aper'') ''LimitRectEllipse''
              [(''max_x'', V h), (''max_y'', V v), (''a'', V a), (''b'', V b)]]))"

definition convert_octagon :: "loader \<Rightarrow> madelem \<Rightarrow> error + builder list" where
  "convert_octagon self ee =
     ebind (attr_list ee ''aperture'') (\<lambda>ap.
     ebind (py_index ap 0) (\<lambda>a0.
     ebind (py_index ap 1) (\<lambda>a1.
     ebind (py_index ap 2) (\<lambda>a2.
     ebind (py_index ap 3) (\<lambda>a3.
     ebind (np_tan a2) (\<lambda>t2.
     ebind (np_tan a3) (\<lambda>t3.
       let V1 = (a0, vmul a0 t2);
           V2 = (vdiv a1 t3, a1)
       in Inr [mk_builder self (name ee @ ''_aper'') ''LimitPolygon''
                 [(''x_vertices'',
                     L [fst V1, fst V2, vneg (fst V2), vneg (fst V1),
                        vneg (fst V1), vneg (fst V2), fst V2, fst V1]),
                  (''y_vertices'',
                     L [snd V1, snd V2, snd V2, snd V1,
                        vneg (snd V1), vneg (snd V2), vneg (snd V2), vneg (snd V1)])]])))))))"

text \<open>The slices \<open>xs[0::2]\<close> and \<open>xs[1::2]\<close>.\<close>

fun every_other :: "'a list \<Rightarrow> 'a list" where
  "every_other [] = []"
| "every_other [x] = [x]"
| "every_other (x # y # xs) = x # every_other xs"

definition convert_polygon :: "loader \<Rightarrow> madelem \<Rightarrow> error + builder list" where
  "convert_polygon self ee =
     ebind (attr_list ee ''aper_vx'') (\<lambda>vx.
     ebind (attr_list ee ''aper_vy'') (\<lambda>vy.
       Inr [mk_builder self (name ee @ ''_aper'') ''LimitPolygon''
              [(''x_vertices'', L (every_other vx)),
               (''y_vertices'', L (every_other (drop 1 vy)))]]))"

section \<open>Compound elements\<close>

text \<open>The state of an \<open>Aperture\<close> object, and its constructor.\<close>

record aperture_st =
  ap_mad_el :: madelem
  ap_name :: string
  ap_tilt :: val
  ap_dx :: val
  ap_dy :: val
  ap_type :: pyval

definition Aperture :: "madelem \<Rightarrow> bool \<Rightarrow> error + aperture_st" where
  "Aperture mad_el enable_errors =
     ebind (getattr mad_el ''aper_tilt'') (\<lambda>tilt0.
     ebind (case tilt0 of V t \<Rightarrow> Inr (rad2deg t) | _ \<Rightarrow> Inl TypeError) (\<lambda>aper_tilt.
     ebind (attr_list mad_el ''aper_offset'') (\<lambda>aper_offset.
     ebind (py_index aper_offset 0) (\<lambda>dx.
       let dy = (if length aper_offset > 1 then aper_offset ! 1 else Num 0);
           ae = (if enable_errors then el_align_errors (elem mad_el) else None);
           dx = (case ae of None \<Rightarrow> dx | Some e \<Rightarrow> vadd dx (Num (ae_arex e)));
           dy = (case ae of None \<Rightarrow> dy | Some e \<Rightarrow> vadd dy (Num (ae_arey e)))
       in ebind (getattr mad_el ''apertype'') (\<lambda>apertype.
            Inr \<lparr> ap_mad_el = mad_el, ap_name = name mad_el, ap_tilt = aper_tilt,
                  ap_dx = dx, ap_dy = dy, ap_type = apertype \<rparr>)))))"

definition aperture_entry :: "loader \<Rightarrow> aperture_st \<Rightarrow> builder list" where
  "aperture_entry self a =
     (let out = [];
          out = (if truthy_val (ap_tilt a)
                 then out @ [mk_builder self (ap_name a @ ''_aper_tilt_entry'') ''SRotation''
                               [(''angle'', V (ap_tilt a))]]
                 else out);
          out = (if truthy_val (ap_dx a) \<or> truthy_val (ap_dy a)
                 then out @ [mk_builder self (ap_name a @ ''_aper_offset_entry'') ''XYShift''
                               [(''dx'', V (ap_dx a)), (''dy'', V (ap_dy a))]]
                 else out)
      in out)"

definition aperture_exit :: "loader \<Rightarrow> aperture_st \<Rightarrow> builder list" where
  "aperture_exit self a =
     (let out = [];
          out = (if truthy_val (ap_dx a) \<or> truthy_val (ap_dy a)
                 then out @ [mk_builder self (ap_name a @ ''_aper_offset_exit'') ''XYShift''
                               [(''dx'', V (vneg (ap_dx a))), (''dy'', V (vneg (ap_dy a)))]]
                 else out);
          out = (if truthy_val (ap_tilt a)
                 then out @ [mk_builder self (ap_name a @ ''_aper_tilt_exit'') ''SRotation''
                               [(''angle'', V (vneg (ap_tilt a)))]]
                 else out)
      in out)"

text \<open>The names \<open>t\<close> for which the loader class has a method \<open>convert_t\<close>.\<close>

definition converter_names :: "string list" where
  "converter_names =
     [''quadrupole'', ''rbend'', ''sbend'', ''sextupole'', ''octupole'', ''rectangle'',
      ''racetrack'', ''ellipse'', ''circle'', ''rectellipse'', ''octagon'', ''polygon'',
      ''drift'', ''marker'', ''drift_like'', ''monitor'', ''hmonitor'', ''vmonitor'',
      ''collimator'', ''rcollimator'', ''elseparator'', ''instrument'', ''solenoid'',
      ''multipole'', ''kicker'', ''tkicker'', ''hkicker'', ''vkicker'', ''dipedge'',
      ''rfcavity'', ''rfmultipole'', ''wire'', ''crabcavity'', ''beambeam'', ''placeholder'',
      ''matrix'', ''srotation'', ''xrotation'', ''yrotation'', ''translation'', ''nllens'']"

text \<open>
  \<open>Aperture.aperture()\<close>: a polygon when there are more than two vertices, else the
  conversion rule named by the aperture type; no such rule is an error.
\<close>

definition aperture_aperture :: "loader \<Rightarrow> aperture_st \<Rightarrow> error + builder list" where
  "aperture_aperture self a =
     ebind (getattr (ap_mad_el a) ''aper_vx'') (\<lambda>vx.
     ebind (py_len vx) (\<lambda>n.
       if n > 2 then
         ebind (getattr (ap_mad_el a) ''aper_vy'') (\<lambda>vy.
           Inr [mk_builder self (ap_name a @ ''_aper'') ''LimitPolygon''
                  [(''x_vertices'', vx), (''y_vertices'', vy)]])
       else
         (case ap_type a of
            S t \<Rightarrow>
              if t = ''rectangle'' then convert_rectangle self (ap_mad_el a)
              else if t = ''racetrack'' then convert_racetrack self (ap_mad_el a)
              else if t = ''ellipse'' then convert_ellipse self (ap_mad_el a)
              else if t = ''circle'' then convert_circle self (ap_mad_el a)
              else if t = ''rectellipse'' then convert_rectellipse self (ap_mad_el a)
              else if t = ''octagon'' then convert_octagon self (ap_mad_el a)
              else if t = ''polygon'' then convert_polygon self (ap_mad_el a)
              else if t \<in> set converter_names
                then other_aperture_converters self t (ap_mad_el a)
              else Inl (ValueError (''Aperture type `'' @ t @ ''` not supported''))
          | _ \<Rightarrow> Inl TypeError)))"

text \<open>
  \<open>make_compound_elem\<close>. A single drift whose record is named \<open>drift_...\<close> and a
  single marker are returned as they are; everything else becomes one compound,
  unless compounds are switched off. Classes are given by their names, and the test
  \<open>issubclass\<close> is the equality of names.
\<close>

definition make_compound_elem ::
    "loader \<Rightarrow> builder list \<Rightarrow> madelem \<Rightarrow> val option \<Rightarrow> error + entry list" where
  "make_compound_elem self xtrack_el mad_el custom_tilt =
     ebind (Alignment mad_el (enable_align_errors self) (Builder_with_expr self) custom_tilt)
       (\<lambda>align.
     ebind (if enable_apertures self then has_aperture mad_el else Inr False) (\<lambda>with_aper.
     ebind (if with_aper then
              ebind (Aperture mad_el (enable_align_errors self)) (\<lambda>aper.
              ebind (aperture_aperture self aper) (\<lambda>ap.
                Inr (aperture_entry self aper @ ap @ aperture_exit self aper)))
            else Inr []) (\<lambda>aperture_seq.
       let align_entry = alignment_entry align;
           align_exit = alignment_exit align;
           elem_list = aperture_seq @ align_entry @ xtrack_el @ align_exit
       in if \<not> use_compound_elements self then Inr (map Plain elem_list)
          else if length elem_list = 1 \<and> b_type (elem_list ! 0) = ''Drift''
                  \<and> take 6 (name mad_el) = ''drift_'' then Inr (map Plain elem_list)
          else if length elem_list = 1 \<and> b_type (elem_list ! 0) = ''Marker''
            then Inr (map Plain elem_list)
          else Inr [Compound \<lparr> cb_name = name mad_el, cb_core = xtrack_el,
                                cb_entry_transform = alignment_entry align,
                                cb_exit_transform = alignment_exit align,
                                cb_aperture = aperture_seq \<rparr>])))"

section \<open>Conversion rules\<close>

text \<open>
  The rules for drifts, markers and the types imported as drifts: monitors,
  collimators, separators and instruments.
\<close>

definition convert_drift :: "loader \<Rightarrow> madelem \<Rightarrow> error + entry list" where
  "convert_drift self mad_elem =
     ebind (getattr mad_elem ''l'') (\<lambda>l.
       Inr [Plain (mk_builder self (name mad_elem) ''Drift'' [(''length'', l)])])"

definition convert_marker :: "loader \<Rightarrow> madelem \<Rightarrow> error + entry list" where
  "convert_marker self mad_elem =
     make_compound_elem self [mk_builder self (name mad_elem) ''Marker'' []] mad_elem None"

definition convert_drift_like :: "loader \<Rightarrow> madelem \<Rightarrow> error + entry list" where
  "convert_drift_like self mad_elem =
     ebind (getattr mad_elem ''l'') (\<lambda>l.
       make_compound_elem self [mk_builder self (name mad_elem) ''Drift'' [(''length'', l)]]
         mad_elem None)"

text \<open>
  \<open>convert_solenoid\<close>, with what it prints: a solenoid of length zero is imported
  as a drift, with a warning.
\<close>

definition convert_solenoid :: "loader \<Rightarrow> madelem \<Rightarrow> error + (string list \<times> entry list)" where
  "convert_solenoid self mad_elem =
     ebind (getattr mad_elem ''l'') (\<lambda>l.
       if py_eq_zero (get_value l) then
         ebind (convert_drift_like self mad_elem) (\<lambda>es.
           Inr ([''Warning: Thin solenoids are not yet implemented, reverting to importing `''
                 @ name mad_elem @ ''` as a drift.''], es))
       else
         ebind (getattr mad_elem ''ks'') (\<lambda>ks.
         ebind (getattr mad_elem ''ksi'') (\<lambda>ksi.
         ebind (make_compound_elem self
                  [mk_builder self (name mad_elem) ''Solenoid''
                     [(''length'', l), (''ks'', ks), (''ksi'', ksi)]] mad_elem None) (\<lambda>es.
           Inr ([], es)))))"

section \<open>Merging multipoles\<close>

text \<open>
  Python's \<open>==\<close> on attribute values. Two numbers are compared. Every read of an
  attribute that has an expression evaluates the expression anew, so the nodes that
  two views hold are different objects, and the expression library compares
  composite nodes as objects: a comparison that involves an expression node is
  false. (Two references to one and the same variable, which the library may find
  equal, are not told apart from composite nodes here.) Lists are equal when they
  have the same length and equal entries; values of different kinds are not equal.
\<close>

fun val_eq :: "val \<Rightarrow> val \<Rightarrow> bool" where
  "val_eq (Num a) (Num b) = (a = b)"
| "val_eq _ _ = False"

fun py_eq :: "pyval \<Rightarrow> pyval \<Rightarrow> bool" where
  "py_eq (V a) (V b) = val_eq a b"
| "py_eq (L xs) (L ys) = list_all2 val_eq xs ys"
| "py_eq (S a) (S b) = (a = b)"
| "py_eq _ _ = False"

text \<open>
  A chain \<open>self.k1 == other.k1 and self.k2 == other.k2 and ...\<close>: it stops at the
  first pair that differs, before the later attributes are read.
\<close>

fun attrs_equal :: "madelem \<Rightarrow> madelem \<Rightarrow> string list \<Rightarrow> error + bool" where
  "attrs_equal self other [] = Inr True"
| "attrs_equal self other (k # ks) =
     ebind (getattr self k) (\<lambda>a.
     ebind (getattr other k) (\<lambda>b.
       if py_eq a b then attrs_equal self other ks else Inr False))"

definition same_aperture :: "madelem \<Rightarrow> madelem \<Rightarrow> error + bool" where
  "same_aperture self other =
     attrs_equal self other
       [''aperture'', ''aper_offset'', ''aper_tilt'', ''aper_vx'', ''aper_vy'', ''apertype'']"

text \<open>
  The loop over the field errors: \<open>range(len(self.field_errors.dkn))\<close>, adding
  entry by entry in both arrays. An index outside one of the other three arrays
  raises.
\<close>

definition fe_step :: "nat \<Rightarrow> field_errs \<Rightarrow> field_errs \<Rightarrow> error + field_errs" where
  "fe_step ii other f =
     (if ii < length (dkn f) \<and> ii < length (dkn other) then
        (let f1 = f\<lparr> dkn := (dkn f)[ii := dkn f ! ii + dkn other ! ii] \<rparr>
         in if ii < length (dks f1) \<and> ii < length (dks other)
            then Inr (f1\<lparr> dks := (dks f1)[ii := dks f1 ! ii + dks other ! ii] \<rparr>)
            else Inl IndexError)
      else Inl IndexError)"

fun efold :: "('a \<Rightarrow> 's \<Rightarrow> error + 's) \<Rightarrow> 'a list \<Rightarrow> 's \<Rightarrow> error + 's" where
  "efold f [] s = Inr s"
| "efold f (x # xs) s = ebind (f x s) (efold f xs)"

text \<open>
  \<open>merge_multipole\<close> returns the flag and the view \<open>self\<close> as the call leaves it.
  The record of alignment errors is compared as a value.
\<close>

definition merge_multipole :: "madelem \<Rightarrow> madelem \<Rightarrow> error + (bool \<times> madelem)" where
  "merge_multipole self other =
     ebind (same_aperture self other) (\<lambda>sa.
     ebind (if sa \<and> el_align_errors (elem self) = el_align_errors (elem other)
            then attrs_equal self other [''tilt'', ''angle'']
            else Inr False) (\<lambda>ok.
       if ok then
         ebind (getattr self ''knl'') (\<lambda>a.
         ebind (getattr other ''knl'') (\<lambda>b.
         ebind (py_add a b) (\<lambda>knl.
           let self = setattr self ''knl'' knl in
           ebind (getattr self ''ksl'') (\<lambda>a.
           ebind (getattr other ''ksl'') (\<lambda>b.
           ebind (py_add a b) (\<lambda>ksl.
             let self = setattr self ''ksl'' ksl in
             ebind (case (field_errors self, field_errors other) of
                      (Some f, Some g) \<Rightarrow>
                        ebind (efold (\<lambda>ii. fe_step ii g) [0 ..< length (dkn f)] f)
                          (\<lambda>f'. Inr (self\<lparr> field_errors := Some f' \<rparr>))
                    | _ \<Rightarrow> Inr self) (\<lambda>self.
               Inr (True, self\<lparr> name := name self @ ''_'' @ name other \<rparr>))))))))
       else Inr (False, self)))"

section \<open>Walking the source sequence\<close>

text \<open>What the pending slot holds: the sentinel \<open>Dummy\<close>, whose type is \<open>"None"\<close>, or a view.\<close>

datatype item = Dummy | Elem madelem

fun item_type :: "item \<Rightarrow> string" where
  "item_type Dummy = ''None''"
| "item_type (Elem m) = mtype m"

fun flush :: "item \<Rightarrow> item list" where
  "flush Dummy = []"
| "flush x = [x]"

text \<open>
  One round of the loop of \<open>iter_elements\<close>: the new pending slot and what the round
  yields.
\<close>

definition iter_step ::
    "loader \<Rightarrow> (string \<Rightarrow> val) option \<Rightarrow> item \<Rightarrow> cpy_elem \<Rightarrow> error + (item \<times> item list)" where
  "iter_step self mv last_element el =
     ebind (MadElem (el_name el) el mv (name_prefix self)) (\<lambda>madelem.
     ebind (if skip_markers self then is_empty_marker madelem else Inr False) (\<lambda>skip.
       if skip then Inr (last_element, [])
       else if merge_drifts self \<and> item_type last_element = ''drift''
               \<and> mtype madelem = ''drift'' then
         (case last_element of
            Dummy \<Rightarrow> Inl (AttributeError ''l'')
          | Elem le \<Rightarrow>
              ebind (getattr le ''l'') (\<lambda>a.
              ebind (raw_getattr el ''l'') (\<lambda>b.
              ebind (py_add a b) (\<lambda>c. Inr (Elem (setattr le ''l'' c), [])))))
       else if merge_multipoles self \<and> item_type last_element = ''multipole''
               \<and> mtype madelem = ''multipole'' then
         (case last_element of
            Dummy \<Rightarrow> Inl (AttributeError ''merge_multipole'')
          | Elem le \<Rightarrow>
              ebind (merge_multipole le madelem) (\<lambda>(merged, le').
                if merged then Inr (Elem le', [])
                else Inr (Elem madelem, [Elem le'])))
       else if mtype madelem \<in> set (ignore_madtypes self) then Inr (last_element, [])
       else Inr (Elem madelem, flush last_element)))"

fun iter_loop ::
    "loader \<Rightarrow> (string \<Rightarrow> val) option \<Rightarrow> cpy_elem list \<Rightarrow> item \<Rightarrow> error + (item \<times> item list)" where
  "iter_loop self mv [] last_element = Inr (last_element, [])"
| "iter_loop self mv (el # els) last_element =
     ebind (iter_step self mv last_element el) (\<lambda>(last', ys).
     ebind (iter_loop self mv els last') (\<lambda>(last'', zs). Inr (last'', ys @ zs)))"

record sequence =
  seq_repr :: string
  expanded_elements :: "cpy_elem list"

text \<open>\<open>iter_elements\<close>, as the list of what it yields: the last item is the final flush.\<close>

definition iter_elements :: "loader \<Rightarrow> sequence \<Rightarrow> (string \<Rightarrow> val) option \<Rightarrow> error + item list" where
  "iter_elements self seq mv =
     (if length (expanded_elements seq) = 0 then
        Inl (ValueError (seq_repr seq @ '' has no elements, please do '' @ seq_repr seq @ ''.use()''))
      else ebind (iter_loop self mv (expanded_elements seq) Dummy) (\<lambda>(last_element, ys).
             Inr (ys @ [last_element])))"

section \<open>Building the line\<close>

definition quiet :: "(madelem \<Rightarrow> error + entry list) \<Rightarrow> madelem \<Rightarrow> error + (string list \<times> entry list)" where
  "quiet f m = ebind (f m) (\<lambda>es. Inr ([], es))"

definition plain :: "(madelem \<Rightarrow> error + builder list) \<Rightarrow> madelem \<Rightarrow> error + entry list" where
  "plain f m = ebind (f m) (\<lambda>bs. Inr (map Plain bs))"

text \<open>
  \<open>getattr(self, "convert_" + el.type, None)\<close>: the conversion rule of a type, with
  the diagnostics the rule prints.
\<close>

definition converter ::
    "loader \<Rightarrow> string \<Rightarrow> (madelem \<Rightarrow> error + (string list \<times> entry list)) option" where
  "converter self t =
     (if t = ''drift'' then Some (quiet (convert_drift self))
      else if t = ''marker'' then Some (quiet (convert_marker self))
      else if t \<in> set [''drift_like'', ''monitor'', ''hmonitor'', ''vmonitor'', ''collimator'',
                        ''rcollimator'', ''elseparator'', ''instrument'']
        then Some (quiet (convert_drift_like self))
      else if t = ''solenoid'' then Some (convert_solenoid self)
      else if t = ''rectangle'' then Some (quiet (plain (convert_rectangle self)))
      else if t = ''racetrack'' then Some (quiet (plain (convert_racetrack self)))
      else if t = ''ellipse'' then Some (quiet (plain (convert_ellipse self)))
      else if t = ''circle'' then Some (quiet (plain (convert_circle self)))
      else if t = ''rectellipse'' then Some (quiet (plain (convert_rectellipse self)))
      else if t = ''octagon'' then Some (quiet (plain (convert_octagon self)))
      else if t = ''polygon'' then Some (quiet (plain (convert_polygon self)))
      else if t \<in> set converter_names then Some (other_converters self t)
      else None)"

text \<open>
  The body of the loop of \<open>make_line\<close> for one yielded item. The class has no
  method \<open>add_...\<close>, so the adder is always absent. With a list of element types for
  expressions the builder class and the item's evaluator are set per item.
\<close>

definition unsupported :: "string \<Rightarrow> error" where
  "unsupported t =
     ValueError (''Element '' @ t @ '' not supported,'' @ [CHR 0x0A] @ ''implement ''
       @ [CHR 0x22] @ ''add_'' @ t @ [CHR 0x22] @ '' or convert_'' @ t
       @ '' in function in MadLoader'')"

definition process_item ::
    "loader \<Rightarrow> (string \<Rightarrow> val) option \<Rightarrow> item \<Rightarrow> line \<Rightarrow> error + (string list \<times> line)" where
  "process_item self mv el l =
     (let t = item_type el;
          with_expr = (case expressions_for_element_types self of
                         None \<Rightarrow> enable_expressions self
                       | Some ts \<Rightarrow> t \<in> set ts);
          el = (case expressions_for_element_types self of
                  None \<Rightarrow> el
                | Some ts \<Rightarrow>
                    (case el of
                       Dummy \<Rightarrow> Dummy
                     | Elem m \<Rightarrow> Elem (m\<lparr> madeval := (if t \<in> set ts then mv else None) \<rparr>)));
          self = self\<lparr> Builder_with_expr := with_expr \<rparr>
      in case converter self t of
           None \<Rightarrow> Inl (unsupported t)
         | Some conv \<Rightarrow>
             (case el of
                Dummy \<Rightarrow> Inl (AttributeError ''name'')
              | Elem m \<Rightarrow> ebind (conv m) (\<lambda>(printed, es). Inr (printed, add_elements es l))))"

fun process_items ::
    "loader \<Rightarrow> (string \<Rightarrow> val) option \<Rightarrow> item list \<Rightarrow> line \<Rightarrow> error + (string list \<times> line)" where
  "process_items self mv [] l = Inr ([], l)"
| "process_items self mv (x # xs) l =
     ebind (process_item self mv x l) (\<lambda>(p, l').
     ebind (process_items self mv xs l') (\<lambda>(q, l''). Inr (p @ q, l'')))"

text \<open>
  The generator and the loop of \<open>make_line\<close> run in turns: an item is converted as
  soon as it is yielded, before the next record is read.
\<close>

fun make_line_loop ::
    "loader \<Rightarrow> (string \<Rightarrow> val) option \<Rightarrow> cpy_elem list \<Rightarrow> item \<Rightarrow> line
       \<Rightarrow> error + (item \<times> string list \<times> line)" where
  "make_line_loop self mv [] last_element l = Inr (last_element, [], l)"
| "make_line_loop self mv (el # els) last_element l =
     ebind (iter_step self mv last_element el) (\<lambda>(last', ys).
     ebind (process_items self mv ys l) (\<lambda>(p, l').
     ebind (make_line_loop self mv els last' l') (\<lambda>(last'', q, l''). Inr (last'', p @ q, l''))))"

text \<open>
  \<open>make_line\<close>. \<open>evaluator\<close> is what \<open>init_line_expressions\<close> returns when
  expressions are enabled. The result is the line with the warnings printed on the
  way; the progress messages are not modelled.
\<close>

definition make_line ::
    "loader \<Rightarrow> sequence \<Rightarrow> (string \<Rightarrow> val) \<Rightarrow> error + (string list \<times> line)" where
  "make_line self seq evaluator =
     (let mv = (if enable_expressions self then Some evaluator else None) in
      if length (expanded_elements seq) = 0 then
        Inl (ValueError (seq_repr seq @ '' has no elements, please do '' @ seq_repr seq @ ''.use()''))
      else
        ebind (make_line_loop self mv (expanded_elements seq) Dummy empty_line)
          (\<lambda>(last_element, p, l).
        ebind (process_item self mv last_element l) (\<lambda>(q, l'). Inr (p @ q, l'))))"

section \<open>Notions used in the properties\<close>

text \<open>
  What a record says about its aperture: whether an attribute is a list or is
  missing, whether the shape array is non-trivial (first entry not zero, or more
  than one entry), and the number of polygon vertices.
\<close>

definition list_or_absent :: "cpy_elem \<Rightarrow> string \<Rightarrow> bool" where
  "list_or_absent el k =
     (case raw_getattr el k of Inl _ \<Rightarrow> True | Inr (L _) \<Rightarrow> True | Inr _ \<Rightarrow> False)"

definition shape_nontrivial :: "cpy_elem \<Rightarrow> bool" where
  "shape_nontrivial el =
     (case raw_getattr el ''aperture'' of
        Inr (L (x # xs)) \<Rightarrow> x \<noteq> Num 0 \<or> length (x # xs) > 1
      | _ \<Rightarrow> False)"

definition polygon_vertices :: "cpy_elem \<Rightarrow> nat" where
  "polygon_vertices el =
     (case raw_getattr el ''aper_vx'' of Inr (L vx) \<Rightarrow> length vx | _ \<Rightarrow> 0)"

text \<open>
  The invariant of the target collection: the names in the sequence are pairwise
  different and each is a key of the dictionary. \<open>extends l l'\<close> says that
  \<open>l'\<close> continues the sequence of \<open>l\<close> and has every entry of \<open>l\<close>
  unchanged.
\<close>

definition line_ok :: "line \<Rightarrow> bool" where
  "line_ok l \<longleftrightarrow> distinct (element_names l) \<and> set (element_names l) \<subseteq> set (dict_keys l)"

definition extends :: "line \<Rightarrow> line \<Rightarrow> bool" where
  "extends l l' \<longleftrightarrow>
     prefix (element_names l) (element_names l')
     \<and> (\<forall>k \<in> set (dict_keys l). map_of (element_dict l') k = map_of (element_dict l) k)"

text \<open>The vertices of a polygon builder, as pairs.\<close>

definition polygon_points :: "builder \<Rightarrow> (val \<times> val) list" where
  "polygon_points b =
     (case (map_of (b_attrs b) ''x_vertices'', map_of (b_attrs b) ''y_vertices'') of
        (Some (L xs), Some (L ys)) \<Rightarrow> zip xs ys
      | _ \<Rightarrow> [])"

text \<open>
  A record is discarded by the loop, while the pending slot holds the sentinel, when
  its view can be built and it is an empty marker that is skipped, or its type is in
  the set of ignored types.
\<close>

definition discarded :: "loader \<Rightarrow> (string \<Rightarrow> val) option \<Rightarrow> cpy_elem \<Rightarrow> bool" where
  "discarded self mv el =
     (case MadElem (el_name el) el mv (name_prefix self) of
        Inl _ \<Rightarrow> False
      | Inr m \<Rightarrow>
          (skip_markers self \<and> is_empty_marker m = Inr True)
          \<or> ((\<not> skip_markers self \<or> is_empty_marker m = Inr False)
              \<and> mtype m \<in> set (ignore_madtypes self)))"

text \<open>The length that a record holds, as a number.\<close>

definition raw_length :: "cpy_elem \<Rightarrow> real" where
  "raw_length el = (case map_of (cmdpar el) ''l'' of Some (ParNum r _) \<Rightarrow> r | _ \<Rightarrow> 0)"

text \<open>
  A drift record that the loader can view: its type is \<open>drift\<close>, it carries no
  permanent misalignment, its length is a scalar, and the evaluator gives the
  expression of the length, if there is one, the value that the record holds.
\<close>

definition drift_record :: "(string \<Rightarrow> val) \<Rightarrow> cpy_elem \<Rightarrow> bool" where
  "drift_record evaluator el \<longleftrightarrow>
     base_type_name el = ''drift''
     \<and> any_truthy_attr el [''dphi'', ''dtheta'', ''dpsi'', ''dx'', ''dy'', ''ds''] = Inr False
     \<and> (case map_of (cmdpar el) ''l'' of
          Some (ParNum r None) \<Rightarrow> True
        | Some (ParNum r (Some t)) \<Rightarrow> value_of (evaluator t) = r
        | _ \<Rightarrow> False)"

text \<open>The name of a view: the record's name behind the loader's prefix.\<close>

definition prefixed :: "loader \<Rightarrow> string \<Rightarrow> string" where
  "prefixed self nm = (case name_prefix self of None \<Rightarrow> nm | Some p \<Rightarrow> p @ nm)"

text \<open>
  The pending slot holds a drift whose length evaluates to \<open>tot\<close>, whichever of
  the two evaluators the view is given.
\<close>

definition drift_pending :: "(string \<Rightarrow> val) \<Rightarrow> madelem \<Rightarrow> real \<Rightarrow> bool" where
  "drift_pending evaluator m tot \<longleftrightarrow>
     mtype m = ''drift''
     \<and> (\<forall>mo. mo = None \<or> mo = Some evaluator \<longrightarrow>
           (\<exists>v. getattr (m\<lparr> madeval := mo \<rparr>) ''l'' = Inr (V v) \<and> value_of v = tot))"

text \<open>
  A record of a run of drifts, after its first drift: another drift, or a record
  that the loop discards.
\<close>

definition in_run :: "loader \<Rightarrow> (string \<Rightarrow> val) \<Rightarrow> (string \<Rightarrow> val) option \<Rightarrow> cpy_elem \<Rightarrow> bool" where
  "in_run self evaluator mo x \<longleftrightarrow>
     drift_record evaluator x \<or> (base_type_name x \<noteq> ''drift'' \<and> discarded self mo x)"

text \<open>
  The lengths that the drift records of a list hold, in order, and their float sum
  accumulated from left to right, as repeated \<open>+=\<close> computes it: every partial sum
  is rounded. \<open>finite_sums a bs\<close> says that no partial sum of \<open>a\<close> and \<open>bs\<close>
  exceeds the largest double.
\<close>

definition drift_lengths :: "cpy_elem list \<Rightarrow> real list" where
  "drift_lengths xs = map raw_length (filter (\<lambda>x. base_type_name x = ''drift'') xs)"

definition run_length :: "cpy_elem list \<Rightarrow> real" where
  "run_length xs = (case drift_lengths xs of [] \<Rightarrow> 0 | a # as \<Rightarrow> foldl fadd a as)"

fun finite_sums :: "real \<Rightarrow> real list \<Rightarrow> bool" where
  "finite_sums a [] = (\<bar>a\<bar> \<le> max_double)"
| "finite_sums a (b # bs) = (\<bar>a\<bar> \<le> max_double \<and> finite_sums (fadd a b) bs)"

text \<open>
  A record that ends a run of drifts: its view can be built, it is no drift, it is
  not ignored and it is not skipped as an empty marker.
\<close>

definition survives :: "loader \<Rightarrow> (string \<Rightarrow> val) option \<Rightarrow> cpy_elem \<Rightarrow> bool" where
  "survives self mo p =
     (case MadElem (el_name p) p mo (name_prefix self) of
        Inl _ \<Rightarrow> False
      | Inr mp \<Rightarrow>
          base_type_name p \<noteq> ''drift'' \<and> base_type_name p \<notin> set (ignore_madtypes self)
          \<and> (\<not> skip_markers self \<or> is_empty_marker mp = Inr False))"


section \<open>Concrete inputs\<close>

definition mk_elem :: "string \<Rightarrow> string \<Rightarrow> (string \<times> cpar) list \<Rightarrow> cpy_elem" where
  "mk_elem nm ty pars =
     \<lparr> el_cmd = Child nm (Root ty), base_type_name = ty, cmdpar = pars,
       el_field_errors = None, el_align_errors = None \<rparr>"

definition view :: "cpy_elem \<Rightarrow> madelem" where
  "view el = \<lparr> name = el_name el, elem = el, madeval = None, field_errors = None, attrs = [] \<rparr>"

definition no_misalign :: "(string \<times> cpar) list" where
  "no_misalign =
     [(''dphi'', ParNum 0 None), (''dtheta'', ParNum 0 None), (''dpsi'', ParNum 0 None),
      (''dx'', ParNum 0 None), (''dy'', ParNum 0 None), (''ds'', ParNum 0 None)]"

definition thin_mult :: madelem where
  "thin_mult = view (mk_elem ''mq1'' ''multipole'' [(''l'', ParNum 0 None)])"

definition thick_mult :: madelem where
  "thick_mult = view (mk_elem ''mq2'' ''multipole'' [(''l'', ParNum (1/2) None)])"

definition two_vertex_marker :: madelem where
  "two_vertex_marker =
     view (mk_elem ''m1'' ''marker''
       [(''aperture'', ParList [0] [None]), (''aper_vx'', ParList [1, 2] [None, None])])"

definition three_vertex_marker :: madelem where
  "three_vertex_marker =
     view (mk_elem ''m2'' ''marker''
       [(''aperture'', ParList [0] [None]),
        (''aper_vx'', ParList [1, 2, 3] [None, None, None])])"

definition default_loader :: loader where
  "default_loader =
     \<lparr> enable_expressions = False, enable_field_errors = False,
       enable_align_errors = False, enable_apertures = False, skip_markers = False,
       merge_drifts = False, merge_multipoles = False, ignore_madtypes = [],
       expressions_for_element_types = None, allow_thick = False,
       use_compound_elements = True, name_prefix = None, Builder_with_expr = False,
       other_converters = (\<lambda>t m. Inl (NotImplementedError [])),
       other_aperture_converters = (\<lambda>t m. Inl (NotImplementedError [])) \<rparr>"

definition marker_builder :: "string \<Rightarrow> builder" where
  "marker_builder nm = \<lparr> b_name = nm, b_type = ''Marker'', b_attrs = [], b_with_expr = False \<rparr>"

definition taken_line :: line where
  "taken_line =
     \<lparr> element_dict = [(''a'', \<lparr> xt_type = ''Marker'', xt_attrs = [], xt_exprs = [] \<rparr>),
                        (''a:0'', \<lparr> xt_type = ''Marker'', xt_attrs = [], xt_exprs = [] \<rparr>)],
       element_names = [''a'', ''a:0''], compound_container = [] \<rparr>"

definition tilted :: alignment where
  "tilted = \<lparr> al_name = ''q1'', al_tilt = Num 90, al_dx = 1 / 1000, al_dy = 0,
               al_with_expr = False \<rparr>"

definition octagon_view :: madelem where
  "octagon_view =
     view (mk_elem ''ap1'' ''marker''
       [(''aperture'', ParList [0.05, 0.04, 0.3, 0.4] [None, None, None, None]),
        (''apertype'', ParStr ''octagon'')])"


definition mult_pars :: "real list \<Rightarrow> real list \<Rightarrow> (string \<times> cpar) list" where
  "mult_pars kn ks =
     [(''l'', ParNum 0 None), (''tilt'', ParNum 0 None), (''angle'', ParNum 0 None),
      (''knl'', ParList kn (map (\<lambda>_. None) kn)), (''ksl'', ParList ks (map (\<lambda>_. None) ks)),
      (''aperture'', ParList [0] [None]), (''aper_offset'', ParList [0] [None]),
      (''aper_tilt'', ParNum 0 None), (''aper_vx'', ParList [-1] [None]),
      (''aper_vy'', ParList [-1] [None]), (''apertype'', ParStr ''circle'')] @ no_misalign"

definition mp1 :: madelem where
  "mp1 = view (mk_elem ''mp1'' ''multipole'' (mult_pars [1, 2] [0]))"

definition mp2 :: madelem where
  "mp2 = view (mk_elem ''mp2'' ''multipole'' (mult_pars [3, 4] [5]))"

definition mp3 :: madelem where
  "mp3 = view (mk_elem ''mp3'' ''multipole''
           ((''tilt'', ParNum (1 / 4) None) # mult_pars [3, 4] [5]))"

definition merge_seq :: sequence where
  "merge_seq = \<lparr> seq_repr = ''<Sequence: line>'', expanded_elements = [elem mp1, elem mp2] \<rparr>"

definition multipole_merging_loader :: loader where
  "multipole_merging_loader = default_loader\<lparr> merge_multipoles := True \<rparr>"

definition skipping_loader :: loader where
  "skipping_loader = default_loader\<lparr> skip_markers := True, ignore_madtypes := [''monitor''] \<rparr>"

definition discarded_seq :: sequence where
  "discarded_seq =
     \<lparr> seq_repr = ''<Sequence: ring>'',
       expanded_elements =
         [mk_elem ''ring$start'' ''marker'' ((''aperture'', ParList [0] [None]) # no_misalign),
          mk_elem ''bpm1'' ''monitor'' ((''l'', ParNum 0 None) # no_misalign)] \<rparr>"

definition drift_el :: "string \<Rightarrow> real \<Rightarrow> cpy_elem" where
  "drift_el nm len = mk_elem nm ''drift'' ((''l'', ParNum len None) # no_misalign)"

definition three_drifts :: sequence where
  "three_drifts =
     \<lparr> seq_repr = ''<Sequence: line>'',
       expanded_elements = [drift_el ''d1'' 1, drift_el ''d2'' 2, drift_el ''d3'' (1 / 2)] \<rparr>"

definition shifted_drift :: sequence where
  "shifted_drift =
     \<lparr> seq_repr = ''<Sequence: line>'',
       expanded_elements =
         [mk_elem ''d1'' ''drift''
            [(''l'', ParNum 1 None), (''dphi'', ParNum 0 None), (''dtheta'', ParNum 0 None),
             (''dpsi'', ParNum 0 None), (''dx'', ParNum (1 / 1000) None),
             (''dy'', ParNum 0 None), (''ds'', ParNum 0 None)]] \<rparr>"

definition long_and_short :: sequence where
  "long_and_short =
     \<lparr> seq_repr = ''<Sequence: line>'',
       expanded_elements = [drift_el ''d1'' 10000000000000000, drift_el ''d2'' 1] \<rparr>"

definition merging_loader :: loader where
  "merging_loader = default_loader\<lparr> merge_drifts := True \<rparr>"

definition drift_ignoring_loader :: loader where
  "drift_ignoring_loader = default_loader\<lparr> merge_drifts := True, ignore_madtypes := [''drift''] \<rparr>"

section \<open>Properties\<close>

subsection \<open>Results and errors\<close>

lemma ebind_Inl [simp]: "ebind (Inl e) f = Inl e"
  by (simp add: ebind_def)

lemma ebind_Inr [simp]: "ebind (Inr x) f = f x"
  by (simp add: ebind_def)

lemma ebind_eq_Inr:
  "ebind r f = Inr y \<longleftrightarrow> (\<exists>x. r = Inr x \<and> f x = Inr y)"
  by (cases r) simp_all

subsection \<open>The non-zero test on parameter values\<close>

text \<open>
  Claim C2. \<open>nonzero_or_expr\<close> has two paths: an expression node gives true
  whatever its current value is (also when that value is 0), a number gives true
  exactly when it is not zero. The answer for an expression node does not depend on
  its value.
\<close>

theorem nonzero_or_expr_two_paths:
  "nonzero_or_expr (V (Expr v))
   \<and> nonzero_or_expr (V (Expr 0))
   \<and> (nonzero_or_expr (V (Num r)) \<longleftrightarrow> r \<noteq> 0)
   \<and> nonzero_or_expr (V (Expr v)) = nonzero_or_expr (V (Expr w))"
  by (simp add: nonzero_or_expr_def)

subsection \<open>The thin-element length check\<close>

lemma getattr_view:
  "getattr (view el) k =
     (case map_of (cmdpar el) k of
        None \<Rightarrow> Inl (AttributeError
          (''Element `'' @ el_name el @ '': '' @ base_type_name el @ ''` has no attribute `'' @ k @ ''`''))
      | Some p \<Rightarrow> Inr (par_view None p))"
  by (simp add: getattr_def view_def mtype_def split: option.splits)

text \<open>
  Claim C6. For a view whose length attribute is a scalar, the check returns without
  raising when the length evaluates to zero. Otherwise it raises: with thick elements
  allowed, the error that thick elements of this type are not yet supported; with
  thick elements not allowed, the error whose message asks for \<open>allow_thick=True\<close>.
\<close>

theorem assert_element_is_thin_cases:
  assumes "getattr mad_el ''l'' = Inr (V v)"
  shows "assert_element_is_thin self mad_el =
     (if value_of v = 0 then Inr ()
      else if allow_thick self then
        Inl (NotImplementedError
          (''Cannot load element '' @ name mad_el @ '', as thick elements of type ''
           @ join ''/'' (get_type_hierarchy (el_cmd (elem mad_el)))
           @ '' are not yet supported.''))
      else
        Inl (ValueError
          (''Element '' @ name mad_el @ '' is thick, but importing thick elements is ''
           @ ''disabled. Did you forget to set `allow_thick=True`?'')))"
proof (cases v)
  case (Num r)
  with assms show ?thesis by (simp add: assert_element_is_thin_def)
next
  case (Expr r)
  with assms show ?thesis by (simp add: assert_element_is_thin_def)
qed

lemma getattr_thin_mult: "getattr thin_mult ''l'' = Inr (V (Num 0))"
  by (simp add: thin_mult_def getattr_view mk_elem_def par_view_def)

lemma getattr_thick_mult: "getattr thick_mult ''l'' = Inr (V (Num (1/2)))"
  by (simp add: thick_mult_def getattr_view mk_elem_def par_view_def)

theorem assert_element_is_thin_witness:
  "assert_element_is_thin default_loader thin_mult = Inr ()
   \<and> assert_element_is_thin default_loader thick_mult =
       Inl (ValueError (''Element mq2 is thick, but importing thick elements is ''
         @ ''disabled. Did you forget to set `allow_thick=True`?''))
   \<and> assert_element_is_thin (default_loader\<lparr>allow_thick := True\<rparr>) thick_mult =
       Inl (NotImplementedError (''Cannot load element mq2, as thick elements of type ''
         @ ''mq2/multipole are not yet supported.''))"
  using assert_element_is_thin_cases [OF getattr_thin_mult, of default_loader]
    assert_element_is_thin_cases [OF getattr_thick_mult, of default_loader]
    assert_element_is_thin_cases [OF getattr_thick_mult, of "default_loader\<lparr>allow_thick := True\<rparr>"]
  by (simp add: default_loader_def thick_mult_def view_def mk_elem_def el_name_def)

subsection \<open>Apertures and empty markers\<close>

text \<open>
  Claim C7 as the specification states it fails on the code: a record whose shape
  array is trivial and whose polygon has exactly two vertices has no aperture, since
  the code asks for more than two.
\<close>

theorem has_aperture_two_vertices_counterexample:
  "raw_getattr (elem two_vertex_marker) ''aper_vx'' = Inr (L [Num 1, Num 2])
   \<and> has_aperture two_vertex_marker = Inr False
   \<and> is_empty_marker two_vertex_marker = Inr True"
  by (simp add: two_vertex_marker_def view_def mk_elem_def has_aperture_def
      is_empty_marker_def raw_getattr_def mtype_def)

text \<open>
  Claim C7, amended. For a record whose \<open>aperture\<close> attribute, when it has one, is
  a non-empty list and whose \<open>aper_vx\<close> attribute, when it has one, is a list:
  \<open>has_aperture\<close> is true exactly when the shape array is non-trivial (first entry
  not zero, or more than one entry) or the polygon has more than two vertices; and
  \<open>is_empty_marker\<close> is true exactly when the type is \<open>marker\<close> and
  \<open>has_aperture\<close> is false.
\<close>

theorem has_aperture_is_empty_marker:
  assumes "list_or_absent (elem m) ''aperture''"
    and "raw_getattr (elem m) ''aperture'' \<noteq> Inr (L [])"
    and "list_or_absent (elem m) ''aper_vx''"
  shows "has_aperture m = Inr (shape_nontrivial (elem m) \<or> polygon_vertices (elem m) > 2)
       \<and> is_empty_marker m =
           Inr (mtype m = ''marker''
                \<and> \<not> (shape_nontrivial (elem m) \<or> polygon_vertices (elem m) > 2))"
proof -
  have h: "has_aperture m = Inr (shape_nontrivial (elem m) \<or> polygon_vertices (elem m) > 2)"
    using assms
    by (auto simp: has_aperture_def list_or_absent_def shape_nontrivial_def
        polygon_vertices_def Let_def split: sum.splits pyval.splits list.splits)
  then show ?thesis
    by (simp add: is_empty_marker_def)
qed

theorem has_aperture_is_empty_marker_witness:
  "has_aperture three_vertex_marker = Inr True
   \<and> is_empty_marker three_vertex_marker = Inr False
   \<and> polygon_vertices (elem three_vertex_marker) = 3"
proof -
  have a: "list_or_absent (elem three_vertex_marker) ''aperture''"
    and b: "raw_getattr (elem three_vertex_marker) ''aperture'' \<noteq> Inr (L [])"
    and c: "list_or_absent (elem three_vertex_marker) ''aper_vx''"
    by (simp_all add: three_vertex_marker_def view_def mk_elem_def list_or_absent_def
        raw_getattr_def)
  show ?thesis
    using has_aperture_is_empty_marker [OF a b c]
    by (simp add: three_vertex_marker_def view_def mk_elem_def shape_nontrivial_def
        polygon_vertices_def raw_getattr_def mtype_def)
qed

subsection \<open>Unique names in the target collection\<close>

lemma first_unused_spec:
  "ii \<le> first_unused l nm ii
   \<and> suffixed nm (first_unused l nm ii) \<notin> set (dict_keys l)
   \<and> (\<forall>j. ii \<le> j \<and> j < first_unused l nm ii \<longrightarrow> suffixed nm j \<in> set (dict_keys l))"
proof (induction l nm ii rule: first_unused.induct)
  case (1 l nm ii)
  show ?case
  proof (cases "suffixed nm ii \<in> set (dict_keys l)")
    case True
    then have eq: "first_unused l nm ii = first_unused l nm (Suc ii)"
      by (subst first_unused.simps) simp
    have "suffixed nm j \<in> set (dict_keys l)"
      if "ii \<le> j" and "j < first_unused l nm (Suc ii)" for j
    proof (cases "j = ii")
      case True
      with \<open>suffixed nm ii \<in> set (dict_keys l)\<close> show ?thesis by simp
    next
      case False
      with that have "Suc ii \<le> j" by simp
      with that "1.IH" [OF True] show ?thesis by blast
    qed
    with "1.IH" [OF True] show ?thesis
      unfolding eq by (simp add: Suc_leD)
  next
    case False
    then have "first_unused l nm ii = ii"
      by (subst first_unused.simps) simp
    with False show ?thesis by auto
  qed
qed

lemma generate_repeated_name_fresh: "generate_repeated_name l nm \<notin> set (dict_keys l)"
  using first_unused_spec [of 0 l nm] by (simp add: generate_repeated_name_def)

lemma dict_keys_append_element:
  "set (dict_keys (append_element l e nm)) = insert nm (set (dict_keys l))"
  by (auto simp: dict_keys_def append_element_def update_keys)

lemma append_element_fresh:
  assumes "line_ok l" and "nm \<notin> set (dict_keys l)"
  shows "line_ok (append_element l e nm) \<and> extends l (append_element l e nm)"
proof -
  have names: "element_names (append_element l e nm) = element_names l @ [nm]"
    by (simp add: append_element_def)
  have dict: "map_of (element_dict (append_element l e nm)) = (map_of (element_dict l))(nm \<mapsto> e)"
    by (simp add: append_element_def update_conv')
  from assms have "nm \<notin> set (element_names l)"
    by (auto simp: line_ok_def)
  with assms(1) have "line_ok (append_element l e nm)"
    unfolding line_ok_def names dict_keys_append_element by auto
  moreover from assms(2) have "extends l (append_element l e nm)"
    unfolding extends_def names dict by auto
  ultimately show ?thesis ..
qed

lemma add_to_line_ok:
  assumes "line_ok l"
  shows "line_ok (add_to_line b l) \<and> extends l (add_to_line b l)"
  unfolding add_to_line_def Let_def
  by (rule append_element_fresh [OF assms generate_repeated_name_fresh])

lemma extends_refl: "extends l l"
  by (simp add: extends_def)

lemma extends_trans:
  assumes "extends a b" and "extends b c" and "line_ok a" "line_ok b"
  shows "extends a c"
proof -
  have "set (dict_keys a) \<subseteq> set (dict_keys b)"
  proof
    fix k assume "k \<in> set (dict_keys a)"
    then have "map_of (element_dict a) k \<noteq> None"
      by (simp add: dict_keys_def map_of_eq_None_iff)
    with assms(1) \<open>k \<in> set (dict_keys a)\<close> have "map_of (element_dict b) k \<noteq> None"
      by (simp add: extends_def)
    then show "k \<in> set (dict_keys b)"
      by (simp add: dict_keys_def map_of_eq_None_iff)
  qed
  with assms show ?thesis
    unfolding extends_def by (auto intro: prefix_order.trans)
qed

lemma fold_add_to_line_ok:
  assumes "line_ok l"
  shows "line_ok (fold add_to_line bs l) \<and> extends l (fold add_to_line bs l)"
  using assms
proof (induction bs arbitrary: l)
  case Nil
  then show ?case by (simp add: extends_refl)
next
  case (Cons b bs)
  from add_to_line_ok [OF Cons.prems, of b]
  have ok: "line_ok (add_to_line b l)" and ex: "extends l (add_to_line b l)" by simp_all
  from Cons.IH [OF ok] show ?case
    using extends_trans [OF ex _ Cons.prems ok] by simp
qed

lemma define_compound_frame:
  "line_ok (define_compound l nm c) = line_ok l"
  "extends a (define_compound l nm c) = extends a l"
  by (simp_all add: define_compound_def line_ok_def extends_def dict_keys_def)

lemma entry_add_to_line_ok:
  assumes "line_ok l"
  shows "line_ok (entry_add_to_line e l) \<and> extends l (entry_add_to_line e l)"
proof (cases e)
  case (Plain b)
  with add_to_line_ok [OF assms] show ?thesis by simp
next
  case (Compound cb)
  show ?thesis
    unfolding Compound entry_add_to_line.simps compound_add_to_line_def Let_def
      define_compound_frame
    by (rule fold_add_to_line_ok [OF assms])
qed

lemma add_elements_ok:
  assumes "line_ok l"
  shows "line_ok (add_elements es l) \<and> extends l (add_elements es l)"
  using assms unfolding add_elements_def
proof (induction es arbitrary: l)
  case Nil
  then show ?case by (simp add: extends_refl)
next
  case (Cons e es)
  from entry_add_to_line_ok [OF Cons.prems, of e]
  have ok: "line_ok (entry_add_to_line e l)" and ex: "extends l (entry_add_to_line e l)" by simp_all
  from Cons.IH [OF ok] show ?case
    using extends_trans [OF ex _ Cons.prems ok] by simp
qed

text \<open>
  Claim C3. The generated name is never a key of the dictionary. A base name that is
  free is kept; a base name that is taken gets the suffix \<open>:i\<close> for the first index
  \<open>i\<close>, counting from 0, whose candidate is free. Materialising a builder appends
  the generated name, so any sequence of insertions into a collection with unique
  names leaves the names unique and overwrites no entry.
\<close>

theorem generated_names_unique:
  "generate_repeated_name l nm \<notin> set (dict_keys l)
   \<and> (nm \<notin> set (dict_keys l) \<longrightarrow> generate_repeated_name l nm = nm)
   \<and> (nm \<in> set (dict_keys l) \<longrightarrow>
        (\<exists>i. generate_repeated_name l nm = suffixed nm i
             \<and> suffixed nm i \<notin> set (dict_keys l)
             \<and> (\<forall>j < i. suffixed nm j \<in> set (dict_keys l))))
   \<and> element_names (add_to_line b l) = element_names l @ [generate_repeated_name l (b_name b)]
   \<and> (line_ok l \<longrightarrow> line_ok (add_elements es l) \<and> extends l (add_elements es l))"
proof -
  have "\<exists>i. generate_repeated_name l nm = suffixed nm i
             \<and> suffixed nm i \<notin> set (dict_keys l)
             \<and> (\<forall>j < i. suffixed nm j \<in> set (dict_keys l))" if "nm \<in> set (dict_keys l)"
    using that first_unused_spec [of 0 l nm]
    by (intro exI [of _ "first_unused l nm 0"]) (simp add: generate_repeated_name_def)
  moreover have "element_names (add_to_line b l) = element_names l @ [generate_repeated_name l (b_name b)]"
    by (simp add: add_to_line_def Let_def append_element_def)
  ultimately show ?thesis
    using generate_repeated_name_fresh [of l nm] add_elements_ok [of l es]
    by (simp add: generate_repeated_name_def)
qed

lemma suffixed_a: "suffixed ''a'' 0 = ''a:0''" "suffixed ''a'' (Suc 0) = ''a:1''"
  by (simp_all add: suffixed_def str_nat.simps digit_char_def)

lemma taken_line_keys: "set (dict_keys taken_line) = {''a'', ''a:0''}"
  by (simp add: taken_line_def dict_keys_def)

lemma first_unused_taken_line: "first_unused taken_line ''a'' 0 = Suc 0"
  by (simp add: first_unused.simps [of taken_line "''a''"] suffixed_a taken_line_keys)

theorem generated_names_unique_witness:
  "line_ok taken_line
   \<and> ''a'' \<in> set (dict_keys taken_line)
   \<and> generate_repeated_name taken_line ''a'' = ''a:1''
   \<and> ''a:1'' \<notin> set (dict_keys taken_line)
   \<and> generate_repeated_name taken_line ''b'' = ''b''
   \<and> element_names (add_to_line (marker_builder ''a'') taken_line) = [''a'', ''a:0'', ''a:1'']
   \<and> line_ok (add_elements [Plain (marker_builder ''a''), Plain (marker_builder ''b'')] taken_line)
   \<and> extends taken_line
        (add_elements [Plain (marker_builder ''a''), Plain (marker_builder ''b'')] taken_line)"
proof -
  have ok: "line_ok taken_line"
    by (simp add: line_ok_def taken_line_def dict_keys_def)
  have a: "generate_repeated_name taken_line ''a'' = ''a:1''"
    by (simp add: generate_repeated_name_def first_unused_taken_line suffixed_a taken_line_keys)
  have b: "generate_repeated_name taken_line ''b'' = ''b''"
    by (simp add: generate_repeated_name_def taken_line_keys)
  have n: "element_names taken_line = [''a'', ''a:0'']"
    by (simp add: taken_line_def)
  have k: "''a'' \<in> set (dict_keys taken_line)"
    by (simp add: taken_line_keys)
  show ?thesis
    using generated_names_unique [of taken_line "''a''" "marker_builder ''a''"
        "[Plain (marker_builder ''a''), Plain (marker_builder ''b'')]"] ok a b k n
    by (simp add: marker_builder_def)
qed

subsection \<open>Alignment: entry and exit are inverse\<close>

lemma rot_inv:
  "transform \<lparr> b_name = n2, b_type = ''SRotation'', b_attrs = [(''angle'', V (vneg t))], b_with_expr = w2 \<rparr>
     (transform \<lparr> b_name = n1, b_type = ''SRotation'', b_attrs = [(''angle'', V t)], b_with_expr = w1 \<rparr> p) = p"
  (is "transform ?r2 (transform ?r1 p) = p")
proof -
  have v: "value_of (vneg t) = - value_of t" by (cases t) simp_all
  obtain x y where p: "p = (x, y)" by (cases p)
  define c where "c = cos (value_of t * pi / 180)"
  define s where "s = sin (value_of t * pi / 180)"
  have cs: "c * c + s * s = 1"
    unfolding c_def s_def using sin_cos_squared_add2 [of "value_of t * pi / 180"]
    by (simp add: power2_eq_square)
  have r1: "transform ?r1 (x, y) = (x * c + y * s, - x * s + y * c)"
    by (simp add: transform_def attr_value_def c_def s_def Let_def)
  have r2: "transform ?r2 (u, w) = (u * c - w * s, u * s + w * c)" for u w
    by (simp add: transform_def attr_value_def c_def s_def v Let_def)
  have "(x * c + y * s) * c - (- x * s + y * c) * s = x * (c * c + s * s)"
    by (simp add: algebra_simps)
  then have 1: "(x * c + y * s) * c - (- x * s + y * c) * s = x"
    by (simp only: cs mult_1_right)
  have "(x * c + y * s) * s + (- x * s + y * c) * c = y * (c * c + s * s)"
    by (simp add: algebra_simps)
  then have 2: "(x * c + y * s) * s + (- x * s + y * c) * c = y"
    by (simp only: cs mult_1_right)
  have "transform ?r2 (transform ?r1 (x, y)) = transform ?r2 (x * c + y * s, - x * s + y * c)"
    by (simp only: r1)
  also have "\<dots> = ((x * c + y * s) * c - (- x * s + y * c) * s,
                    (x * c + y * s) * s + (- x * s + y * c) * c)"
    by (rule r2)
  also have "\<dots> = (x, y)"
    by (simp only: 1 2)
  finally show ?thesis by (simp only: p)
qed

lemma shift_inv:
  "transform \<lparr> b_name = n2, b_type = ''XYShift'', b_attrs = [(''dx'', V (Num (- dx))), (''dy'', V (Num (- dy)))], b_with_expr = w2 \<rparr>
     (transform \<lparr> b_name = n1, b_type = ''XYShift'', b_attrs = [(''dx'', V (Num dx)), (''dy'', V (Num dy))], b_with_expr = w1 \<rparr> p) = p"
  by (simp add: transform_def attr_value_def)

text \<open>
  Claim C5. \<open>entry()\<close> gives the rotation by the tilt, when the tilt is truthy (a
  number that is not zero, or an expression node), then the offset by \<open>(dx, dy)\<close>,
  when one of them is not zero. \<open>exit()\<close> gives the offset by \<open>(-dx, -dy)\<close> then
  the rotation by the negated tilt, under the same conditions. The exit sequence is
  the entry sequence reversed with every element inverted, and entry followed by
  exit leaves every point where it was.
\<close>

theorem alignment_entry_exit_inverse:
  "alignment_entry a =
     (if truthy_val (al_tilt a)
      then [\<lparr> b_name = al_name a @ ''_tilt_entry'', b_type = ''SRotation'',
               b_attrs = [(''angle'', V (al_tilt a))], b_with_expr = al_with_expr a \<rparr>]
      else [])
     @ (if al_dx a \<noteq> 0 \<or> al_dy a \<noteq> 0
        then [\<lparr> b_name = al_name a @ ''_offset_entry'', b_type = ''XYShift'',
                 b_attrs = [(''dx'', V (Num (al_dx a))), (''dy'', V (Num (al_dy a)))],
                 b_with_expr = al_with_expr a \<rparr>]
        else [])
   \<and> alignment_exit a =
     (if al_dx a \<noteq> 0 \<or> al_dy a \<noteq> 0
      then [\<lparr> b_name = al_name a @ ''_offset_exit'', b_type = ''XYShift'',
               b_attrs = [(''dx'', V (Num (- al_dx a))), (''dy'', V (Num (- al_dy a)))],
               b_with_expr = al_with_expr a \<rparr>]
      else [])
     @ (if truthy_val (al_tilt a)
        then [\<lparr> b_name = al_name a @ ''_tilt_exit'', b_type = ''SRotation'',
                 b_attrs = [(''angle'', V (vneg (al_tilt a)))], b_with_expr = al_with_expr a \<rparr>]
        else [])
   \<and> map transform_kind (alignment_exit a) = map inverse_transform (rev (alignment_entry a))
   \<and> fold transform (alignment_entry a @ alignment_exit a) p = p"
  by (simp add: alignment_entry_def alignment_exit_def transform_kind_def inverse_transform_def
      rot_inv shift_inv)

theorem alignment_entry_exit_inverse_witness:
  "map b_name (alignment_entry tilted) = [''q1_tilt_entry'', ''q1_offset_entry'']
   \<and> map b_name (alignment_exit tilted) = [''q1_offset_exit'', ''q1_tilt_exit'']
   \<and> map transform_kind (alignment_exit tilted)
       = [(''XYShift'', [(''dx'', V (Num (- (1 / 1000)))), (''dy'', V (Num 0))]),
          (''SRotation'', [(''angle'', V (Num (- 90)))])]
   \<and> fold transform (alignment_entry tilted @ alignment_exit tilted) (1, 2) = (1, 2)"
proof -
  have 1: "map b_name (alignment_entry tilted) = [''q1_tilt_entry'', ''q1_offset_entry'']"
    by (simp add: alignment_entry_def tilted_def)
  have 2: "map b_name (alignment_exit tilted) = [''q1_offset_exit'', ''q1_tilt_exit'']"
    by (simp add: alignment_exit_def tilted_def)
  have 3: "map transform_kind (alignment_exit tilted)
       = [(''XYShift'', [(''dx'', V (Num (- (1 / 1000)))), (''dy'', V (Num 0))]),
          (''SRotation'', [(''angle'', V (Num (- 90)))])]"
    by (simp add: alignment_exit_def tilted_def transform_kind_def)
  from alignment_entry_exit_inverse [of tilted "(1, 2)"]
  have 4: "fold transform (alignment_entry tilted @ alignment_exit tilted) (1, 2) = (1, 2)"
    by (elim conjE)
  show ?thesis
    by (rule conjI [OF 1 conjI [OF 2 conjI [OF 3 4]]])
qed

subsection \<open>The octagon aperture\<close>

lemma vneg_vneg [simp]: "vneg (vneg v) = v"
  by (cases v) simp_all

text \<open>
  Claim C8. For an aperture array \<open>[a0, a1, a2, a3, ...]\<close> with numeric angles the
  octagon conversion gives one polygon builder with 8 vertices, the first two being
  \<open>V1 = (a0, a0 * tan a2)\<close> and \<open>V2 = (a1 / tan a3, a1)\<close>, and the set of vertices is
  mapped onto itself by both axis reflections. (Where \<open>tan a3 = 0\<close> the quotient of
  floats is an infinity and has no counterpart among the reals; the count and the
  symmetry do not depend on its value.)
\<close>

theorem convert_octagon_polygon:
  assumes "getattr ee ''aperture'' = Inr (L (a0 # a1 # Num a2 # Num a3 # rest))"
  shows "\<exists>b. convert_octagon self ee = Inr [b]
     \<and> b_name b = name ee @ ''_aper'' \<and> b_type b = ''LimitPolygon''
     \<and> length (polygon_points b) = 8
     \<and> polygon_points b ! 0 = (a0, vmul a0 (Num (tan a2)))
     \<and> polygon_points b ! 1 = (vdiv a1 (Num (tan a3)), a1)
     \<and> (\<lambda>(x, y). (vneg x, y)) ` set (polygon_points b) = set (polygon_points b)
     \<and> (\<lambda>(x, y). (x, vneg y)) ` set (polygon_points b) = set (polygon_points b)"
proof -
  let ?V1x = a0 and ?V1y = "vmul a0 (Num (tan a2))"
  let ?V2x = "vdiv a1 (Num (tan a3))" and ?V2y = a1
  let ?b = "mk_builder self (name ee @ ''_aper'') ''LimitPolygon''
      [(''x_vertices'', L [?V1x, ?V2x, vneg ?V2x, vneg ?V1x, vneg ?V1x, vneg ?V2x, ?V2x, ?V1x]),
       (''y_vertices'', L [?V1y, ?V2y, ?V2y, ?V1y, vneg ?V1y, vneg ?V2y, vneg ?V2y, vneg ?V1y])]"
  have conv: "convert_octagon self ee = Inr [?b]"
    using assms by (simp add: convert_octagon_def attr_list_def py_index_def)
  have pts: "polygon_points ?b =
      [(?V1x, ?V1y), (?V2x, ?V2y), (vneg ?V2x, ?V2y), (vneg ?V1x, ?V1y),
       (vneg ?V1x, vneg ?V1y), (vneg ?V2x, vneg ?V2y), (?V2x, vneg ?V2y), (?V1x, vneg ?V1y)]"
    by (simp add: polygon_points_def mk_builder_def)
  have sx: "(\<lambda>(x, y). (vneg x, y)) ` set (polygon_points ?b) = set (polygon_points ?b)"
    unfolding pts by (simp add: insert_commute) 
  have sy: "(\<lambda>(x, y). (x, vneg y)) ` set (polygon_points ?b) = set (polygon_points ?b)"
    unfolding pts by (simp add: insert_commute)
  show ?thesis
    using conv sx sy by (intro exI [of _ ?b]) (simp add: pts, simp add: mk_builder_def)
qed

lemma getattr_octagon_view:
  "getattr octagon_view ''aperture'' = Inr (L (Num 0.05 # Num 0.04 # Num 0.3 # Num 0.4 # []))"
  by (simp add: octagon_view_def getattr_view mk_elem_def par_view_def eval_list_def)

theorem convert_octagon_polygon_witness:
  "\<exists>b. convert_octagon default_loader octagon_view = Inr [b]
     \<and> b_name b = ''ap1_aper'' \<and> b_type b = ''LimitPolygon''
     \<and> length (polygon_points b) = 8
     \<and> polygon_points b ! 0 = (Num 0.05, Num (0.05 * tan 0.3))
     \<and> polygon_points b ! 1 = (Num (0.04 / tan 0.4), Num 0.04)
     \<and> (\<lambda>(x, y). (vneg x, y)) ` set (polygon_points b) = set (polygon_points b)
     \<and> (\<lambda>(x, y). (x, vneg y)) ` set (polygon_points b) = set (polygon_points b)"
proof -
  have n: "name octagon_view = ''ap1''"
    by (simp add: octagon_view_def view_def mk_elem_def el_name_def)
  from convert_octagon_polygon [OF getattr_octagon_view, of default_loader]
  obtain b where "convert_octagon default_loader octagon_view = Inr [b]"
    and "b_name b = name octagon_view @ ''_aper''" and "b_type b = ''LimitPolygon''"
    and "length (polygon_points b) = 8"
    and "polygon_points b ! 0 = (Num 0.05, vmul (Num 0.05) (Num (tan 0.3)))"
    and "polygon_points b ! 1 = (vdiv (Num 0.04) (Num (tan 0.4)), Num 0.04)"
    and "(\<lambda>(x, y). (vneg x, y)) ` set (polygon_points b) = set (polygon_points b)"
    and "(\<lambda>(x, y). (x, vneg y)) ` set (polygon_points b) = set (polygon_points b)"
    by blast
  then show ?thesis
    by (intro exI [of _ b]) (simp add: n)
qed

subsection \<open>The solenoid of length zero\<close>










subsection \<open>Merging two multipoles\<close>

lemma getattr_setattr:
  "getattr (setattr m k v) k' = (if k' = k then Inr v else getattr m k')"
  by (simp add: getattr_def setattr_def update_conv' mtype_def split: option.splits)

lemma setattr_fields [simp]:
  "name (setattr m k v) = name m" "elem (setattr m k v) = elem m"
  "field_errors (setattr m k v) = field_errors m" "madeval (setattr m k v) = madeval m"
  by (simp_all add: setattr_def)

lemma getattr_name_update [simp]: "getattr (m\<lparr>name := n\<rparr>) k = 
    (case map_of (attrs m) k of Some v \<Rightarrow> Inr v | None \<Rightarrow>
      (case map_of (cmdpar (elem m)) k of
             None \<Rightarrow> Inl (AttributeError
                (''Element `'' @ n @ '': '' @ mtype m @ ''` has no attribute `'' @ k @ ''`''))
           | Some p \<Rightarrow> Inr (par_view (madeval m) p)))"
  by (simp add: getattr_def mtype_def split: option.splits)

lemma MadElem_mp:
  "MadElem (el_name (elem mp1)) (elem mp1) None (name_prefix multipole_merging_loader) = Inr mp1"
  "MadElem (el_name (elem mp2)) (elem mp2) None (name_prefix multipole_merging_loader) = Inr mp2"
  by (simp_all add: MadElem_def mp1_def mp2_def view_def mk_elem_def mult_pars_def
      no_misalign_def raw_getattr_def multipole_merging_loader_def default_loader_def)

lemma mp_types: "mtype mp1 = ''multipole''" "mtype mp2 = ''multipole''"
  by (simp_all add: mtype_def mp1_def mp2_def view_def mk_elem_def)

lemma iter_elements_merge_seq:
  assumes "merge_multipole mp1 mp2 = Inr (True, m)"
  shows "iter_elements multipole_merging_loader merge_seq None = Inr [Elem m]"
proof -
  have o: "\<not> skip_markers multipole_merging_loader" "\<not> merge_drifts multipole_merging_loader"
    "merge_multipoles multipole_merging_loader" "ignore_madtypes multipole_merging_loader = []"
    by (simp_all add: multipole_merging_loader_def default_loader_def)
  have 1: "iter_step multipole_merging_loader None Dummy (elem mp1) = Inr (Elem mp1, [])"
    by (simp add: iter_step_def MadElem_mp o mp_types)
  have 2: "iter_step multipole_merging_loader None (Elem mp1) (elem mp2) = Inr (Elem m, [])"
    by (simp add: iter_step_def MadElem_mp o mp_types assms)
  show ?thesis
    by (simp add: iter_elements_def merge_seq_def 1 2)
qed

text \<open>
  Claim C1 on the code. The two views agree on aperture, alignment errors, tilt and
  angle, so the merge succeeds. The strength lists of the result are the lists of
  the first view followed by those of the second: \<open>+=\<close> on two Python lists
  extends the first. The element-wise sums would be \<open>[4, 6]\<close> and \<open>[5]\<close>. The
  loader reaches this merge on the two records in sequence when the merging of
  multipoles is enabled.
\<close>

theorem merge_multipole_concatenates:
  "\<exists>m. merge_multipole mp1 mp2 = Inr (True, m)
       \<and> getattr m ''knl'' = Inr (L [Num 1, Num 2, Num 3, Num 4])
       \<and> getattr m ''ksl'' = Inr (L [Num 0, Num 5])
       \<and> name m = ''mp1_mp2''
       \<and> iter_elements multipole_merging_loader merge_seq None = Inr [Elem m]"
proof -
  have g1: "getattr mp1 k = (case map_of (mult_pars [1, 2] [0]) k of
        None \<Rightarrow> Inl (AttributeError (''Element `mp1: multipole` has no attribute `'' @ k @ ''`''))
      | Some p \<Rightarrow> Inr (par_view None p))" for k
    by (simp add: mp1_def getattr_view mk_elem_def el_name_def split: option.splits)
  have g2: "getattr mp2 k = (case map_of (mult_pars [3, 4] [5]) k of
        None \<Rightarrow> Inl (AttributeError (''Element `mp2: multipole` has no attribute `'' @ k @ ''`''))
      | Some p \<Rightarrow> Inr (par_view None p))" for k
    by (simp add: mp2_def getattr_view mk_elem_def el_name_def split: option.splits)
  have sa: "same_aperture mp1 mp2 = Inr True"
    by (simp add: same_aperture_def g1 g2 mult_pars_def par_view_def eval_list_def)
  have ta: "attrs_equal mp1 mp2 [''tilt'', ''angle''] = Inr True"
    by (simp add: g1 g2 mult_pars_def par_view_def)
  have ae: "el_align_errors (elem mp1) = el_align_errors (elem mp2)"
    by (simp add: mp1_def mp2_def view_def mk_elem_def)
  have fe: "field_errors mp1 = None"
    by (simp add: mp1_def view_def)
  have k1: "getattr mp1 ''knl'' = Inr (L [Num 1, Num 2])" "getattr mp1 ''ksl'' = Inr (L [Num 0])"
    by (simp_all add: g1 mult_pars_def par_view_def eval_list_def)
  have k2: "getattr mp2 ''knl'' = Inr (L [Num 3, Num 4])" "getattr mp2 ''ksl'' = Inr (L [Num 5])"
    by (simp_all add: g2 mult_pars_def par_view_def eval_list_def)
  have n: "name mp1 = ''mp1''" "name mp2 = ''mp2''"
    by (simp_all add: mp1_def mp2_def view_def mk_elem_def el_name_def)
  let ?m = "(setattr (setattr mp1 ''knl'' (L [Num 1, Num 2, Num 3, Num 4])) ''ksl'' (L [Num 0, Num 5]))
      \<lparr> name := ''mp1_mp2'' \<rparr>"
  have mm: "merge_multipole mp1 mp2 = Inr (True, ?m)"
    by (simp add: merge_multipole_def sa ta ae k1 k2 getattr_setattr fe n Let_def
        del: attrs_equal.simps)
  note mm iter_elements_merge_seq [OF mm]
  moreover have "getattr ?m ''knl'' = Inr (L [Num 1, Num 2, Num 3, Num 4])"
    "getattr ?m ''ksl'' = Inr (L [Num 0, Num 5])"
    by (simp_all add: setattr_def update_conv')
  ultimately show ?thesis
    by (intro exI [of _ ?m]) simp
qed

lemma field_errors_step_frame:
  assumes "(case fs of
              None \<Rightarrow> Inr s
            | Some f \<Rightarrow>
                (case fo of
                   None \<Rightarrow> Inr s
                 | Some g \<Rightarrow>
                     ebind (efold (\<lambda>ii. fe_step ii g) [0 ..< length (dkn f)] f)
                       (\<lambda>f'. Inr (s\<lparr> field_errors := Some f' \<rparr>)))) = Inr s'"
  shows "name s' = name s \<and> elem s' = elem s"
  using assms by (cases fs; cases fo) (auto simp: ebind_eq_Inr)

text \<open>
  What \<open>merge_multipole\<close> returns. The flag is true exactly when the aperture
  attributes, the records of alignment errors, the tilts and the angles are equal.
  When it is false the view is returned as it was; when it is true the name is the
  two names joined by an underscore.
\<close>

lemma merge_multipole_flag_and_frame:
  assumes "merge_multipole self other = Inr (ok, m)"
  shows "(ok \<longleftrightarrow> same_aperture self other = Inr True
                \<and> el_align_errors (elem self) = el_align_errors (elem other)
                \<and> attrs_equal self other [''tilt'', ''angle''] = Inr True)
       \<and> (\<not> ok \<longrightarrow> m = self)
       \<and> (ok \<longrightarrow> name m = name self @ ''_'' @ name other \<and> elem m = elem self)"
proof -
  from assms obtain sa ta where sa: "same_aperture self other = Inr sa"
    and ta: "(if sa \<and> el_align_errors (elem self) = el_align_errors (elem other)
              then attrs_equal self other [''tilt'', ''angle''] else Inr False) = Inr ta"
    unfolding merge_multipole_def ebind_eq_Inr by blast
  show ?thesis
  proof (cases ta)
    case False
    with assms sa ta have "ok = False" "m = self"
      by (simp_all add: merge_multipole_def del: attrs_equal.simps)
    with sa ta False show ?thesis
      by (auto split: if_splits)
  next
    case True
    with assms sa ta have r: "ok = True \<and> name m = name self @ ''_'' @ name other \<and> elem m = elem self"
      unfolding merge_multipole_def
      by (auto simp: ebind_eq_Inr Let_def simp del: attrs_equal.simps
          dest!: field_errors_step_frame)
    with sa ta True show ?thesis
      by (auto split: if_splits)
  qed
qed

lemma merge_multipole_flag_and_frame_example:
  "merge_multipole mp1 mp3 = Inr (False, mp1)
   \<and> attrs_equal mp1 mp3 [''tilt'', ''angle''] = Inr False
   \<and> same_aperture mp1 mp3 = Inr True"
proof -
  have g1: "getattr mp1 k = (case map_of (mult_pars [1, 2] [0]) k of
        None \<Rightarrow> Inl (AttributeError (''Element `mp1: multipole` has no attribute `'' @ k @ ''`''))
      | Some p \<Rightarrow> Inr (par_view None p))" for k
    by (simp add: mp1_def getattr_view mk_elem_def el_name_def split: option.splits)
  have g3: "getattr mp3 k = (case map_of ((''tilt'', ParNum (1 / 4) None) # mult_pars [3, 4] [5]) k of
        None \<Rightarrow> Inl (AttributeError (''Element `mp3: multipole` has no attribute `'' @ k @ ''`''))
      | Some p \<Rightarrow> Inr (par_view None p))" for k
    by (simp add: mp3_def getattr_view mk_elem_def el_name_def split: option.splits)
  have sa: "same_aperture mp1 mp3 = Inr True"
    by (simp add: same_aperture_def g1 g3 mult_pars_def par_view_def eval_list_def)
  have ta: "attrs_equal mp1 mp3 [''tilt'', ''angle''] = Inr False"
    by (simp add: g1 g3 mult_pars_def par_view_def)
  have ae: "el_align_errors (elem mp1) = el_align_errors (elem mp3)"
    by (simp add: mp1_def mp3_def view_def mk_elem_def)
  have mm: "merge_multipole mp1 mp3 = Inr (False, mp1)"
    by (simp add: merge_multipole_def sa ta ae del: attrs_equal.simps)
  from merge_multipole_flag_and_frame [OF mm] sa ta mm show ?thesis
    by simp
qed

subsection \<open>A sequence whose records are all discarded\<close>

lemma iter_step_discarded:
  assumes "discarded self mv el"
  shows "iter_step self mv Dummy el = Inr (Dummy, [])"
proof -
  from assms obtain m where m: "MadElem (el_name el) el mv (name_prefix self) = Inr m"
    and d: "(skip_markers self \<and> is_empty_marker m = Inr True)
          \<or> ((\<not> skip_markers self \<or> is_empty_marker m = Inr False)
              \<and> mtype m \<in> set (ignore_madtypes self))"
    by (auto simp: discarded_def split: sum.splits)
  from d show ?thesis
    by (auto simp: iter_step_def m)
qed

lemma iter_loop_discarded:
  assumes "\<forall>el \<in> set els. discarded self mv el"
  shows "iter_loop self mv els Dummy = Inr (Dummy, [])"
  using assms by (induction els) (simp_all add: iter_step_discarded)

lemma make_line_loop_discarded:
  assumes "\<forall>el \<in> set els. discarded self mv el"
  shows "make_line_loop self mv els Dummy l = Inr (Dummy, [], l)"
  using assms by (induction els) (simp_all add: iter_step_discarded)

lemma None_not_converter: "converter self ''None'' = None"
  by (simp add: converter_def converter_names_def)

lemma process_item_Dummy: "process_item self mv Dummy l = Inl (unsupported ''None'')"
  by (simp add: process_item_def Let_def None_not_converter split: option.splits)

text \<open>
  Claim C10. When the sequence is not empty and every record is discarded,
  \<open>iter_elements\<close> yields exactly the sentinel, whose type is \<open>"None"\<close>, and
  \<open>make_line\<close> raises the error of an unsupported element type for it.
\<close>

theorem all_discarded_yields_sentinel:
  assumes "expanded_elements seq \<noteq> []"
    and "\<forall>el \<in> set (expanded_elements seq).
           discarded self (if enable_expressions self then Some evaluator else None) el"
  shows "iter_elements self seq (if enable_expressions self then Some evaluator else None)
           = Inr [Dummy]
       \<and> item_type Dummy = ''None''
       \<and> make_line self seq evaluator
           = Inl (ValueError (''Element None not supported,'' @ [CHR 0x0A]
                   @ ''implement '' @ [CHR 0x22] @ ''add_None'' @ [CHR 0x22]
                   @ '' or convert_None in function in MadLoader''))"
proof -
  let ?mv = "if enable_expressions self then Some evaluator else None"
  have 1: "iter_elements self seq ?mv = Inr [Dummy]"
    using assms(1) iter_loop_discarded [OF assms(2)]
    by (simp add: iter_elements_def)
  have 2: "make_line self seq evaluator = Inl (unsupported ''None'')"
    using assms(1) make_line_loop_discarded [OF assms(2), of empty_line]
    by (simp add: make_line_def Let_def process_item_Dummy)
  from 1 2 show ?thesis
    by (simp add: unsupported_def)
qed

theorem all_discarded_yields_sentinel_witness:
  "expanded_elements discarded_seq \<noteq> []
   \<and> iter_elements skipping_loader discarded_seq None = Inr [Dummy]
   \<and> make_line skipping_loader discarded_seq (\<lambda>t. Num 0)
       = Inl (ValueError (''Element None not supported,'' @ [CHR 0x0A]
               @ ''implement '' @ [CHR 0x22] @ ''add_None'' @ [CHR 0x22]
               @ '' or convert_None in function in MadLoader''))"
proof -
  have ne: "expanded_elements discarded_seq \<noteq> []"
    by (simp add: discarded_seq_def)
  have ee: "\<not> enable_expressions skipping_loader"
    by (simp add: skipping_loader_def default_loader_def)
  have d: "\<forall>el \<in> set (expanded_elements discarded_seq).
      discarded skipping_loader (if enable_expressions skipping_loader then Some (\<lambda>t. Num 0) else None) el"
    by (simp add: ee discarded_seq_def discarded_def MadElem_def mk_elem_def no_misalign_def
        raw_getattr_def skipping_loader_def default_loader_def is_empty_marker_def
        has_aperture_def mtype_def el_name_def)
  from all_discarded_yields_sentinel [OF ne d] ne ee show ?thesis
    by simp
qed

subsection \<open>Merging consecutive drifts\<close>

lemma pow2_powr: "pow2 e = 2 powr (of_int e)"
  by (simp add: pow2_def powr_real_of_int divide_inverse)

lemma floor_log2:
  assumes "pow2 e \<le> y" and "y < pow2 (e + 1)"
  shows "\<lfloor>log 2 y\<rfloor> = e"
proof -
  have "0 < pow2 e" by (simp add: pow2_def)
  with assms(1) have "0 < y" by linarith
  then show ?thesis
    using assms by (simp add: floor_log_eq_powr_iff pow2_powr)
qed

text \<open>
  The rounding of a number whose binade is known: this is how \<open>fl\<close> is computed on
  a given number.
\<close>

lemma fl_eq:
  assumes "pow2 e \<le> \<bar>x\<bar>" and "\<bar>x\<bar> < pow2 (e + 1)" and "- 1022 \<le> e"
  shows "fl x = of_int (round_even (x / pow2 (e - 52))) * pow2 (e - 52)"
proof -
  have "0 < pow2 e" by (simp add: pow2_def)
  with assms(1) have "x \<noteq> 0" by auto
  moreover have "ulp x = pow2 (e - 52)"
    using floor_log2 [OF assms(1,2)] assms(3) by (simp add: ulp_def max_def)
  ultimately show ?thesis by (simp add: fl_def)
qed

lemma fadd_1_2: "fadd 1 2 = 3"
  unfolding fadd_def by (simp add: fl_eq [of 1] pow2_def round_even_def Let_def)

lemma fadd_3_half: "fadd 3 (1 / 2) = 7 / 2"
  unfolding fadd_def by (simp add: fl_eq [of 1] pow2_def round_even_def Let_def)

lemma fadd_absorbs: "fadd 10000000000000000 1 = 10000000000000000"
  unfolding fadd_def by (simp add: fl_eq [of 53] pow2_def round_even_def Let_def)

lemma value_of_vadd [simp]: "value_of (vadd a b) = fadd (value_of a) (value_of b)"
  by (cases a; cases b) simp_all

lemma drift_record_view:
  assumes "drift_record evaluator el"
  shows "\<exists>m. MadElem (el_name el) el mo (name_prefix self) = Inr m
           \<and> name m = prefixed self (el_name el) \<and> elem m = el \<and> attrs m = [] \<and> madeval m = mo"
  using assms
  by (simp add: drift_record_def MadElem_def prefixed_def Let_def)

lemma drift_record_raw:
  assumes "drift_record evaluator el"
  shows "raw_getattr el ''l'' = Inr (V (Num (raw_length el)))"
  using assms
  by (auto simp: drift_record_def raw_getattr_def raw_length_def
      split: option.splits cpar.splits)

lemma drift_record_pending:
  assumes "drift_record evaluator el" and "elem m = el" and "attrs m = []"
  shows "drift_pending evaluator m (raw_length el)"
  using assms
  by (auto simp: drift_record_def drift_pending_def mtype_def getattr_def raw_length_def
      par_view_def split: option.splits cpar.splits)

lemma drift_not_empty_marker:
  assumes "mtype m = ''drift''"
  shows "is_empty_marker m = Inr False"
  using assms by (simp add: is_empty_marker_def)

lemma iter_step_first_drift:
  assumes "drift_record evaluator el" and "''drift'' \<notin> set (ignore_madtypes self)"
    and "item_type last_element \<noteq> ''drift''"
  shows "\<exists>m. iter_step self mo last_element el = Inr (Elem m, flush last_element)
           \<and> name m = prefixed self (el_name el) \<and> madeval m = mo
           \<and> drift_pending evaluator m (raw_length el)"
proof -
  from drift_record_view [OF assms(1), of mo self]
  obtain m where m: "MadElem (el_name el) el mo (name_prefix self) = Inr m"
    and n: "name m = prefixed self (el_name el)" and e: "elem m = el" and a: "attrs m = []"
    and mm: "madeval m = mo"
    by blast
  have t: "mtype m = ''drift''"
    using assms(1) e by (simp add: drift_record_def mtype_def)
  have "iter_step self mo last_element el = Inr (Elem m, flush last_element)"
    using assms(2,3) t
    by (simp add: iter_step_def m drift_not_empty_marker)
  with n mm drift_record_pending [OF assms(1) e a] show ?thesis by blast
qed

lemma getattr_setattr_madeval:
  "getattr ((setattr m k v)\<lparr> madeval := mo \<rparr>) k = Inr v"
  by (simp add: getattr_def setattr_def update_conv')

lemma iter_step_next_drift:
  assumes "drift_record evaluator el" and "merge_drifts self"
    and "drift_pending evaluator m tot" and "madeval m = None \<or> madeval m = Some evaluator"
  shows "\<exists>m'. iter_step self mo (Elem m) el = Inr (Elem m', [])
           \<and> name m' = name m \<and> madeval m' = madeval m
           \<and> drift_pending evaluator m' (fadd tot (raw_length el))"
proof -
  from drift_record_view [OF assms(1), of mo self]
  obtain m0 where m0: "MadElem (el_name el) el mo (name_prefix self) = Inr m0"
    and e: "elem m0 = el"
    by blast
  have t0: "mtype m0 = ''drift''"
    using assms(1) e by (simp add: drift_record_def mtype_def)
  from assms(3) have t: "mtype m = ''drift''"
    by (simp add: drift_pending_def)
  from assms(3,4) obtain v where v: "getattr (m\<lparr> madeval := madeval m \<rparr>) ''l'' = Inr (V v)"
    and tv: "value_of v = tot"
    unfolding drift_pending_def by blast
  then have g: "getattr m ''l'' = Inr (V v)" by simp
  let ?m' = "setattr m ''l'' (V (vadd v (Num (raw_length el))))"
  have "iter_step self mo (Elem m) el = Inr (Elem ?m', [])"
    using assms(2) t t0
    by (simp add: iter_step_def m0 drift_not_empty_marker g drift_record_raw [OF assms(1)])
  moreover have "name ?m' = name m" "madeval ?m' = madeval m"
    by (simp_all add: setattr_def)
  moreover have "drift_pending evaluator ?m' (fadd tot (raw_length el))"
    using t tv by (simp add: drift_pending_def getattr_setattr_madeval)
      (simp add: mtype_def setattr_def)
  ultimately show ?thesis by blast
qed

lemma MadElem_elem:
  assumes "MadElem nm el mo pfx = Inr m"
  shows "elem m = el"
  using assms
  by (auto simp: MadElem_def Let_def ebind_eq_Inr split: if_splits)

lemma iter_step_dropped:
  assumes "discarded self mo x" and "base_type_name x \<noteq> ''drift''"
    and "mtype m = ''drift''"
  shows "iter_step self mo (Elem m) x = Inr (Elem m, [])"
proof -
  from assms(1) obtain mx where mx: "MadElem (el_name x) x mo (name_prefix self) = Inr mx"
    and d: "(skip_markers self \<and> is_empty_marker mx = Inr True)
          \<or> ((\<not> skip_markers self \<or> is_empty_marker mx = Inr False)
              \<and> mtype mx \<in> set (ignore_madtypes self))"
    by (auto simp: discarded_def split: sum.splits)
  from MadElem_elem [OF mx] assms(2) have t: "mtype mx \<noteq> ''drift''"
    by (simp add: mtype_def)
  from d t assms(3) show ?thesis
    by (auto simp: iter_step_def mx)
qed

lemma iter_step_in_run:
  assumes "in_run self evaluator mo x" and "merge_drifts self"
    and "drift_pending evaluator m tot" and "madeval m = None \<or> madeval m = Some evaluator"
  shows "\<exists>m'. iter_step self mo (Elem m) x = Inr (Elem m', [])
           \<and> name m' = name m \<and> madeval m' = madeval m
           \<and> drift_pending evaluator m' (foldl fadd tot (drift_lengths [x]))"
proof (cases "drift_record evaluator x")
  case True
  then have "drift_lengths [x] = [raw_length x]"
    by (simp add: drift_lengths_def drift_record_def)
  with iter_step_next_drift [OF True assms(2,3,4), of mo] show ?thesis by simp
next
  case False
  with assms(1) have x: "base_type_name x \<noteq> ''drift''" "discarded self mo x"
    by (simp_all add: in_run_def)
  from assms(3) have "mtype m = ''drift''" by (simp add: drift_pending_def)
  from iter_step_dropped [OF x(2,1) this] x(1) assms(3) show ?thesis
    by (simp add: drift_lengths_def)
qed

lemma drift_lengths_Cons: "drift_lengths (x # xs) = drift_lengths [x] @ drift_lengths xs"
  by (simp add: drift_lengths_def)

lemma iter_loop_run:
  assumes "merge_drifts self" and "\<forall>x \<in> set rest. in_run self evaluator mo x"
    and "drift_pending evaluator m tot" and "madeval m = None \<or> madeval m = Some evaluator"
  shows "\<exists>m'. iter_loop self mo rest (Elem m) = Inr (Elem m', [])
           \<and> (\<forall>l. make_line_loop self mo rest (Elem m) l = Inr (Elem m', [], l))
           \<and> name m' = name m \<and> madeval m' = madeval m
           \<and> drift_pending evaluator m' (foldl fadd tot (drift_lengths rest))"
  using assms(2,3,4)
proof (induction rest arbitrary: m tot)
  case Nil
  then show ?case by (simp add: drift_lengths_def)
next
  case (Cons x rest)
  from Cons.prems(1) have x: "in_run self evaluator mo x"
    and r: "\<forall>y \<in> set rest. in_run self evaluator mo y" by simp_all
  from iter_step_in_run [OF x assms(1) Cons.prems(2,3)]
  obtain m1 where s: "iter_step self mo (Elem m) x = Inr (Elem m1, [])"
    and n1: "name m1 = name m" and e1: "madeval m1 = madeval m"
    and p1: "drift_pending evaluator m1 (foldl fadd tot (drift_lengths [x]))"
    by blast
  from e1 Cons.prems(3) have e1': "madeval m1 = None \<or> madeval m1 = Some evaluator" by simp
  from Cons.IH [OF r p1 e1']
  obtain m' where "iter_loop self mo rest (Elem m1) = Inr (Elem m', [])"
    and "\<forall>l. make_line_loop self mo rest (Elem m1) l = Inr (Elem m', [], l)"
    and "name m' = name m1" and "madeval m' = madeval m1"
    and "drift_pending evaluator m'
           (foldl fadd (foldl fadd tot (drift_lengths [x])) (drift_lengths rest))"
    by blast
  with s n1 e1 show ?case
    by (intro exI [of _ m']) (simp add: drift_lengths_Cons [of x rest])
qed

lemma iter_step_survivor:
  assumes "survives self mo p" and "mtype m = ''drift''"
  shows "\<exists>mp. iter_step self mo (Elem m) p = Inr (Elem mp, [Elem m])"
proof -
  from assms(1) obtain mp where mp: "MadElem (el_name p) p mo (name_prefix self) = Inr mp"
    and t: "base_type_name p \<noteq> ''drift''" "base_type_name p \<notin> set (ignore_madtypes self)"
    and k: "\<not> skip_markers self \<or> is_empty_marker mp = Inr False"
    by (auto simp: survives_def split: sum.splits)
  from MadElem_elem [OF mp] t have "mtype mp \<noteq> ''drift''" "mtype mp \<notin> set (ignore_madtypes self)"
    by (simp_all add: mtype_def)
  with k assms(2) have "iter_step self mo (Elem m) p = Inr (Elem mp, [Elem m])"
    by (auto simp: iter_step_def mp)
  then show ?thesis ..
qed

lemma generate_repeated_name_empty: "generate_repeated_name empty_line nm = nm"
  by (simp add: generate_repeated_name_def dict_keys_def empty_line_def)

text \<open>Converting a pending drift appends one element to the line, whatever the line holds.\<close>

lemma process_item_drift:
  assumes "drift_pending evaluator m tot" and "madeval m = None \<or> madeval m = Some evaluator"
    and "mo = None \<or> mo = Some evaluator"
  shows "\<exists>x v. (\<forall>l. process_item self mo (Elem m) l
                      = Inr ([], append_element l x (generate_repeated_name l (name m))))
           \<and> xt_type x = ''Drift'' \<and> xt_attrs x = [(''length'', V v)] \<and> value_of v = tot"
proof -
  define m' where "m' = (case expressions_for_element_types self of
        None \<Rightarrow> m
      | Some ts \<Rightarrow> m\<lparr> madeval := (if ''drift'' \<in> set ts then mo else None) \<rparr>)"
  define w where "w = (case expressions_for_element_types self of
        None \<Rightarrow> enable_expressions self | Some ts \<Rightarrow> ''drift'' \<in> set ts)"
  from assms(1) have t: "mtype m = ''drift''" by (simp add: drift_pending_def)
  have "\<exists>mo'. (mo' = None \<or> mo' = Some evaluator) \<and> m' = m\<lparr> madeval := mo' \<rparr>"
  proof (cases "expressions_for_element_types self")
    case None
    with assms(2) show ?thesis
      by (intro exI [of _ "madeval m"]) (simp add: m'_def)
  next
    case (Some ts)
    with assms(3) show ?thesis
      by (intro exI [of _ "if ''drift'' \<in> set ts then mo else None"]) (auto simp: m'_def)
  qed
  then obtain mo' where mo': "mo' = None \<or> mo' = Some evaluator" and m': "m' = m\<lparr> madeval := mo' \<rparr>"
    by blast
  with assms(1) obtain v where g: "getattr m' ''l'' = Inr (V v)" and v: "value_of v = tot"
    unfolding drift_pending_def by blast
  have n: "name m' = name m" by (simp add: m')
  have p: "process_item self mo (Elem m) l
      = ebind (quiet (convert_drift (self\<lparr> Builder_with_expr := w \<rparr>)) m')
          (\<lambda>(printed, es). Inr (printed, add_elements es l))" for l
    by (simp add: process_item_def Let_def t converter_def m'_def w_def split: option.splits)
  let ?x = "if w then \<lparr> xt_type = ''Drift'', xt_attrs = [(''length'', V (Num (value_of v)))],
                        xt_exprs = [(''length'', V v)] \<rparr>
            else \<lparr> xt_type = ''Drift'', xt_attrs = [(''length'', V v)], xt_exprs = [] \<rparr>"
  have "process_item self mo (Elem m) l
      = Inr ([], append_element l ?x (generate_repeated_name l (name m)))" for l
    unfolding p
    by (simp add: quiet_def convert_drift_def g mk_builder_def add_elements_def add_to_line_def
        n Let_def)
  moreover have "xt_type ?x = ''Drift''" by simp
  moreover have "\<exists>u. xt_attrs ?x = [(''length'', V u)] \<and> value_of u = tot"
    using v by (cases w) simp_all
  ultimately show ?thesis by blast
qed

text \<open>The loop of \<open>make_line\<close> over a sequence in two parts.\<close>

lemma make_line_loop_append:
  "make_line_loop self mv (xs @ ys) le l =
     ebind (make_line_loop self mv xs le l) (\<lambda>(le', q, l').
     ebind (make_line_loop self mv ys le' l') (\<lambda>(le'', q', l''). Inr (le'', q @ q', l'')))"
proof (induction xs arbitrary: le l)
  case Nil
  show ?case
    by (cases "make_line_loop self mv ys le l") (auto simp: ebind_def)
next
  case (Cons x xs)
  show ?case
  proof (cases "iter_step self mv le x")
    case (Inl e)
    then show ?thesis by simp
  next
    case (Inr a)
    obtain le1 ys1 where a: "a = (le1, ys1)" by (cases a)
    show ?thesis
    proof (cases "process_items self mv ys1 l")
      case (Inl e)
      with Inr a show ?thesis by simp
    next
      case r: (Inr b)
      obtain p l1 where b: "b = (p, l1)" by (cases b)
      show ?thesis
      proof (cases "make_line_loop self mv xs le1 l1")
        case (Inl e)
        with Inr a r b Cons.IH [of le1 l1] show ?thesis by simp
      next
        case s: (Inr c)
        obtain le2 q l2 where c: "c = (le2, q, l2)" by (cases c)
        show ?thesis
        proof (cases "make_line_loop self mv ys le2 l2")
          case (Inl e)
          with Inr a r b s c Cons.IH [of le1 l1] show ?thesis by simp
        next
          case u: (Inr d)
          obtain le3 q' l3 where d: "d = (le3, q', l3)" by (cases d)
          from Inr a r b s c u d Cons.IH [of le1 l1] show ?thesis by simp
        qed
      qed
    qed
  qed
qed

lemma run_length_first:
  assumes "base_type_name d = ''drift''"
  shows "run_length (d # rest) = foldl fadd (raw_length d) (drift_lengths rest)"
  using assms by (simp add: run_length_def drift_lengths_def)

text \<open>
  Claim C4, amended. Drift merging is enabled, the type \<open>drift\<close> is not ignored,
  and a run starts with a drift record \<open>d\<close> while the pending slot holds no drift;
  the records \<open>rest\<close> that follow are drifts or records that the loop discards, and
  no partial sum of the lengths exceeds the largest double. Then the run yields
  nothing but the item that was pending, and leaves pending one view \<open>m\<close> of type
  \<open>drift\<close>, named after \<open>d\<close>, whose length is the float sum of the lengths of the
  drifts of the run, accumulated from left to right. The next record that survives
  yields exactly this view, and converting the view appends exactly one element to
  the line, a drift of that length. So, wherever the run stands in the sequence: up
  to the end of the run the line has received the records before the run and
  nothing of the run; when the run ends the sequence, \<open>make_line\<close> returns that line
  with the one drift appended, and when a surviving record follows, the line holds
  the one drift appended as soon as that record is read. When the run is the whole
  sequence, \<open>iter_elements\<close> yields the view alone.
\<close>

theorem drift_run_merged:
  assumes "merge_drifts self" and "''drift'' \<notin> set (ignore_madtypes self)"
    and "mv = (if enable_expressions self then Some evaluator else None)"
    and "drift_record evaluator d" and "\<forall>x \<in> set rest. in_run self evaluator mv x"
    and "item_type last_element \<noteq> ''drift''"
    and "finite_sums (raw_length d) (drift_lengths rest)"
  shows "\<exists>m v x w.
        iter_loop self mv (d # rest) last_element = Inr (Elem m, flush last_element)
      \<and> mtype m = ''drift'' \<and> name m = prefixed self (el_name d)
      \<and> getattr m ''l'' = Inr (V v) \<and> value_of v = run_length (d # rest)
      \<and> (\<forall>p. survives self mv p \<longrightarrow>
            (\<exists>mp. iter_step self mv (Elem m) p = Inr (Elem mp, [Elem m])))
      \<and> xt_type x = ''Drift'' \<and> xt_attrs x = [(''length'', V w)]
      \<and> value_of w = run_length (d # rest)
      \<and> (\<forall>l. process_item self mv (Elem m) l
                = Inr ([], append_element l x (generate_repeated_name l (name m))))
      \<and> (\<forall>l. make_line_loop self mv (d # rest) last_element l
                = ebind (process_items self mv (flush last_element) l)
                    (\<lambda>(q, l'). Inr (Elem m, q, l')))
      \<and> (\<forall>pre post q0 l0 q1 l1.
              expanded_elements seq = pre @ d # rest @ post
            \<and> make_line_loop self mv pre Dummy empty_line = Inr (last_element, q0, l0)
            \<and> process_items self mv (flush last_element) l0 = Inr (q1, l1)
            \<longrightarrow> (post = [] \<longrightarrow>
                   make_line self seq evaluator
                     = Inr (q0 @ q1, append_element l1 x (generate_repeated_name l1 (name m))))
               \<and> (\<forall>p ps. post = p # ps \<and> survives self mv p \<longrightarrow>
                     (\<exists>mp. make_line_loop self mv (pre @ d # rest @ [p]) Dummy empty_line
                             = Inr (Elem mp, q0 @ q1,
                                    append_element l1 x (generate_repeated_name l1 (name m))))))
      \<and> (last_element = Dummy \<and> expanded_elements seq = d # rest \<longrightarrow>
            iter_elements self seq mv = Inr [Elem m])"
proof -
  have mo: "mv = None \<or> mv = Some evaluator"
    using assms(3) by simp
  from iter_step_first_drift [OF assms(4,2,6), of mv]
  obtain m0 where s0: "iter_step self mv last_element d = Inr (Elem m0, flush last_element)"
    and n0: "name m0 = prefixed self (el_name d)" and e0: "madeval m0 = mv"
    and p0: "drift_pending evaluator m0 (raw_length d)"
    by blast
  from e0 mo have e0': "madeval m0 = None \<or> madeval m0 = Some evaluator" by simp
  from iter_loop_run [OF assms(1,5) p0 e0']
  obtain m where l1: "iter_loop self mv rest (Elem m0) = Inr (Elem m, [])"
    and l2: "\<forall>l. make_line_loop self mv rest (Elem m0) l = Inr (Elem m, [], l)"
    and n: "name m = name m0" and e: "madeval m = madeval m0"
    and p: "drift_pending evaluator m (foldl fadd (raw_length d) (drift_lengths rest))"
    by blast
  have rl: "foldl fadd (raw_length d) (drift_lengths rest) = run_length (d # rest)"
    using assms(4) by (simp add: run_length_first drift_record_def)
  from p have t: "mtype m = ''drift''" by (simp add: drift_pending_def)
  from e e0' have e': "madeval m = None \<or> madeval m = Some evaluator" by simp
  with p obtain v where "getattr (m\<lparr> madeval := madeval m \<rparr>) ''l'' = Inr (V v)"
    and v: "value_of v = run_length (d # rest)"
    unfolding drift_pending_def rl by blast
  then have g: "getattr m ''l'' = Inr (V v)" by simp
  have loop: "iter_loop self mv (d # rest) last_element = Inr (Elem m, flush last_element)"
    by (simp add: s0 l1)
  have surv: "\<forall>p. survives self mv p \<longrightarrow>
      (\<exists>mp. iter_step self mv (Elem m) p = Inr (Elem mp, [Elem m]))"
    using iter_step_survivor [OF _ t] by blast
  from process_item_drift [OF p e' mo, of self]
  obtain x w where pi: "\<forall>l. process_item self mv (Elem m) l
        = Inr ([], append_element l x (generate_repeated_name l (name m)))"
    and x: "xt_type x = ''Drift''" "xt_attrs x = [(''length'', V w)]"
    and w: "value_of w = run_length (d # rest)"
    unfolding rl by blast
  have ml: "make_line_loop self mv (d # rest) last_element l
      = ebind (process_items self mv (flush last_element) l) (\<lambda>(q, l'). Inr (Elem m, q, l'))"
    for l
  proof (cases "process_items self mv (flush last_element) l")
    case (Inl err)
    then show ?thesis by (simp add: s0)
  next
    case (Inr b)
    obtain q l' where "b = (q, l')" by (cases b)
    with Inr l2 show ?thesis by (simp add: s0)
  qed
  have ctx: "(post = [] \<longrightarrow>
         make_line self seq evaluator
           = Inr (q0 @ q1, append_element l1 x (generate_repeated_name l1 (name m))))
       \<and> (\<forall>p ps. post = p # ps \<and> survives self mv p \<longrightarrow>
             (\<exists>mp. make_line_loop self mv (pre @ d # rest @ [p]) Dummy empty_line
                     = Inr (Elem mp, q0 @ q1,
                            append_element l1 x (generate_repeated_name l1 (name m)))))"
    if q: "expanded_elements seq = pre @ d # rest @ post"
      and a: "make_line_loop self mv pre Dummy empty_line = Inr (last_element, q0, l0)"
      and b: "process_items self mv (flush last_element) l0 = Inr (q1, l1)"
    for pre post q0 l0 q1 l1
  proof -
    have upto: "make_line_loop self mv (pre @ d # rest) Dummy empty_line
        = Inr (Elem m, q0 @ q1, l1)"
      by (simp add: make_line_loop_append [of self mv pre "d # rest"] a ml b del: make_line_loop.simps)
    have 1: "make_line self seq evaluator
        = Inr (q0 @ q1, append_element l1 x (generate_repeated_name l1 (name m)))"
      if "post = []"
      using q that upto pi assms(3) by (simp add: make_line_def Let_def del: make_line_loop.simps)
    have 2: "\<exists>mp. make_line_loop self mv (pre @ d # rest @ [p]) Dummy empty_line
        = Inr (Elem mp, q0 @ q1, append_element l1 x (generate_repeated_name l1 (name m)))"
      if "survives self mv p" for p
    proof -
      from surv that obtain mp where
        mp: "iter_step self mv (Elem m) p = Inr (Elem mp, [Elem m])" by blast
      have "make_line_loop self mv [p] (Elem m) l1
          = Inr (Elem mp, [], append_element l1 x (generate_repeated_name l1 (name m)))"
        by (simp add: mp pi)
      with upto make_line_loop_append [of self mv "pre @ d # rest" "[p]" Dummy empty_line]
      have "make_line_loop self mv ((pre @ d # rest) @ [p]) Dummy empty_line
          = Inr (Elem mp, q0 @ q1, append_element l1 x (generate_repeated_name l1 (name m)))"
        by (simp del: make_line_loop.simps)
      then show ?thesis by auto
    qed
    from 1 2 show ?thesis by blast
  qed
  have whole: "iter_elements self seq mv = Inr [Elem m]"
    if "last_element = Dummy" and "expanded_elements seq = d # rest"
    using loop that by (simp add: iter_elements_def)
  have nm: "name m = prefixed self (el_name d)"
    using n n0 by simp
  have ml': "\<forall>l. make_line_loop self mv (d # rest) last_element l
      = ebind (process_items self mv (flush last_element) l) (\<lambda>(q, l'). Inr (Elem m, q, l'))"
    using ml by blast
  have ctx': "\<forall>pre post q0 l0 q1 l1.
        expanded_elements seq = pre @ d # rest @ post
      \<and> make_line_loop self mv pre Dummy empty_line = Inr (last_element, q0, l0)
      \<and> process_items self mv (flush last_element) l0 = Inr (q1, l1)
      \<longrightarrow> (post = [] \<longrightarrow>
             make_line self seq evaluator
               = Inr (q0 @ q1, append_element l1 x (generate_repeated_name l1 (name m))))
         \<and> (\<forall>p ps. post = p # ps \<and> survives self mv p \<longrightarrow>
               (\<exists>mp. make_line_loop self mv (pre @ d # rest @ [p]) Dummy empty_line
                       = Inr (Elem mp, q0 @ q1,
                              append_element l1 x (generate_repeated_name l1 (name m)))))"
    using ctx by blast
  have whole': "last_element = Dummy \<and> expanded_elements seq = d # rest \<longrightarrow>
      iter_elements self seq mv = Inr [Elem m]"
    using whole by blast
  show ?thesis
    apply (rule exI [of _ m], rule exI [of _ v], rule exI [of _ x], rule exI [of _ w])
    apply (intro conjI)
    apply (rule loop, rule t, rule nm, rule g, rule v, rule surv, rule x(1), rule x(2), rule w,
        rule pi, rule ml', rule ctx', rule whole')
    done
qed

lemma drift_el_record: "drift_record evaluator (drift_el nm len)"
  by (simp add: drift_record_def drift_el_def mk_elem_def no_misalign_def raw_getattr_def)

lemma drift_el_simps:
  "el_name (drift_el nm len) = nm" "raw_length (drift_el nm len) = len"
  "base_type_name (drift_el nm len) = ''drift''"
  by (simp_all add: drift_el_def mk_elem_def el_name_def raw_length_def)

text \<open>
  Claim C4 as the specification states it fails on the code. With drift merging
  enabled and the type \<open>drift\<close> in the set of ignored types, three consecutive drifts
  give no drift at all: the loop yields the sentinel only and \<open>make_line\<close> raises.
  A drift record that carries a permanent misalignment makes the view's constructor
  raise. And the length of the merged drift is a float sum, not the exact sum: two
  drifts of lengths \<open>10^16\<close> and \<open>1\<close> merge to one drift of length \<open>10^16\<close>.
\<close>

theorem drift_run_ignored_counterexample:
  "merge_drifts drift_ignoring_loader
   \<and> map base_type_name (expanded_elements three_drifts) = [''drift'', ''drift'', ''drift'']
   \<and> iter_elements drift_ignoring_loader three_drifts None = Inr [Dummy]
   \<and> make_line drift_ignoring_loader three_drifts (\<lambda>t. Num 0) = Inl (unsupported ''None'')
   \<and> merge_drifts merging_loader
   \<and> map base_type_name (expanded_elements shifted_drift) = [''drift'']
   \<and> make_line merging_loader shifted_drift (\<lambda>t. Num 0) = Inl (NotImplementedError [])
   \<and> map base_type_name (expanded_elements long_and_short) = [''drift'', ''drift'']
   \<and> map raw_length (expanded_elements long_and_short) = [10000000000000000, 1]
   \<and> make_line merging_loader long_and_short (\<lambda>t. Num 0)
       = Inr ([], \<lparr> element_dict =
                      [(''d1'', \<lparr> xt_type = ''Drift'',
                                  xt_attrs = [(''length'', V (Num 10000000000000000))],
                                  xt_exprs = [] \<rparr>)],
                    element_names = [''d1''], compound_container = [] \<rparr>)
   \<and> (10000000000000000 :: real) \<noteq> 10000000000000000 + 1"
proof -
  have d: "\<forall>el \<in> set (expanded_elements three_drifts). discarded drift_ignoring_loader None el"
    by (simp add: three_drifts_def discarded_def MadElem_def drift_el_def mk_elem_def
        no_misalign_def raw_getattr_def drift_ignoring_loader_def default_loader_def
        is_empty_marker_def mtype_def el_name_def)
  have ee: "\<not> enable_expressions drift_ignoring_loader" "\<not> enable_expressions merging_loader"
    by (simp_all add: drift_ignoring_loader_def merging_loader_def default_loader_def)
  have ne: "expanded_elements three_drifts \<noteq> []"
    by (simp add: three_drifts_def)
  have 1: "iter_elements drift_ignoring_loader three_drifts None = Inr [Dummy]"
    using ne iter_loop_discarded [OF d] by (simp add: iter_elements_def)
  have 2: "make_line drift_ignoring_loader three_drifts (\<lambda>t. Num 0) = Inl (unsupported ''None'')"
    using ne ee make_line_loop_discarded [OF d, of empty_line]
    by (simp add: make_line_def Let_def process_item_Dummy)
  have 3: "make_line merging_loader shifted_drift (\<lambda>t. Num 0) = Inl (NotImplementedError [])"
    by (simp add: make_line_def ee shifted_drift_def iter_step_def MadElem_def mk_elem_def
        raw_getattr_def)
  have 4: "merge_drifts drift_ignoring_loader" "merge_drifts merging_loader"
    by (simp_all add: drift_ignoring_loader_def merging_loader_def)
  have 5: "map base_type_name (expanded_elements three_drifts) = [''drift'', ''drift'', ''drift'']"
    "map base_type_name (expanded_elements shifted_drift) = [''drift'']"
    "map base_type_name (expanded_elements long_and_short) = [''drift'', ''drift'']"
    "map raw_length (expanded_elements long_and_short) = [10000000000000000, 1]"
    by (simp_all add: three_drifts_def shifted_drift_def long_and_short_def drift_el_simps
        mk_elem_def)
  have s1: "iter_step merging_loader None Dummy (drift_el ''d1'' 10000000000000000)
      = Inr (Elem (view (drift_el ''d1'' 10000000000000000)), [])"
    by (simp add: iter_step_def MadElem_def drift_el_def mk_elem_def no_misalign_def
        raw_getattr_def merging_loader_def default_loader_def mtype_def el_name_def view_def)
  have s2: "iter_step merging_loader None (Elem (view (drift_el ''d1'' 10000000000000000)))
        (drift_el ''d2'' 1)
      = Inr (Elem (setattr (view (drift_el ''d1'' 10000000000000000)) ''l''
                     (V (Num 10000000000000000))), [])"
    by (simp add: iter_step_def MadElem_def drift_el_def mk_elem_def no_misalign_def
        raw_getattr_def merging_loader_def default_loader_def mtype_def el_name_def view_def
        getattr_def par_view_def fadd_absorbs)
  have s3: "process_item merging_loader None
        (Elem (setattr (view (drift_el ''d1'' 10000000000000000)) ''l''
                 (V (Num 10000000000000000)))) empty_line
      = Inr ([], \<lparr> element_dict =
                      [(''d1'', \<lparr> xt_type = ''Drift'',
                                  xt_attrs = [(''length'', V (Num 10000000000000000))],
                                  xt_exprs = [] \<rparr>)],
                    element_names = [''d1''], compound_container = [] \<rparr>)"
    by (simp add: process_item_def Let_def converter_def quiet_def convert_drift_def
        getattr_def setattr_def view_def drift_el_def mk_elem_def mtype_def el_name_def
        merging_loader_def default_loader_def mk_builder_def add_elements_def add_to_line_def
        generate_repeated_name_def dict_keys_def empty_line_def append_element_def)
  have 6: "make_line merging_loader long_and_short (\<lambda>t. Num 0)
       = Inr ([], \<lparr> element_dict =
                      [(''d1'', \<lparr> xt_type = ''Drift'',
                                  xt_attrs = [(''length'', V (Num 10000000000000000))],
                                  xt_exprs = [] \<rparr>)],
                    element_names = [''d1''], compound_container = [] \<rparr>)"
    by (simp add: make_line_def ee long_and_short_def s1 s2 s3)
  have 7: "(10000000000000000 :: real) \<noteq> 10000000000000000 + 1" by simp
  from 1 2 3 4 5 6 7 show ?thesis by simp
qed

theorem drift_run_merged_witness:
  "\<exists>m v x w. iter_elements merging_loader three_drifts None = Inr [Elem m]
     \<and> name m = ''d1'' \<and> mtype m = ''drift''
     \<and> getattr m ''l'' = Inr (V v) \<and> value_of v = 7 / 2
     \<and> make_line merging_loader three_drifts (\<lambda>t. Num 0)
         = Inr ([], \<lparr> element_dict = [(''d1'', x)], element_names = [''d1''],
                      compound_container = [] \<rparr>)
     \<and> xt_type x = ''Drift'' \<and> xt_attrs x = [(''length'', V w)] \<and> value_of w = 7 / 2"
proof -
  let ?d = "drift_el ''d1'' 1" and ?rest = "[drift_el ''d2'' 2, drift_el ''d3'' (1 / 2)]"
  have a1: "merge_drifts merging_loader"
    and a2: "''drift'' \<notin> set (ignore_madtypes merging_loader)"
    and a3: "None = (if enable_expressions merging_loader then Some (\<lambda>t. Num 0) else None)"
    by (simp_all add: merging_loader_def default_loader_def)
  have a5: "\<forall>x \<in> set ?rest. in_run merging_loader (\<lambda>t. Num 0) None x"
    by (simp add: in_run_def drift_el_record)
  have a6: "item_type Dummy \<noteq> ''drift''" by simp
  have dl: "drift_lengths ?rest = [2, 1 / 2]"
    by (simp add: drift_lengths_def drift_el_simps)
  have a7: "finite_sums (raw_length ?d) (drift_lengths ?rest)"
    by (simp add: dl drift_el_simps fadd_1_2 fadd_3_half max_double_def)
  have q: "expanded_elements three_drifts = [] @ ?d # ?rest @ []"
    by (simp add: three_drifts_def)
  have q': "expanded_elements three_drifts = ?d # ?rest"
    by (simp add: three_drifts_def)
  have r: "run_length (?d # ?rest) = 7 / 2"
    by (simp add: run_length_def drift_lengths_def drift_el_simps fadd_1_2 fadd_3_half)
  have n: "prefixed merging_loader (el_name ?d) = ''d1''"
    by (simp add: prefixed_def drift_el_simps merging_loader_def default_loader_def)
  have b: "make_line_loop merging_loader None [] Dummy empty_line = Inr (Dummy, [], empty_line)"
    "process_items merging_loader None (flush Dummy) empty_line = Inr ([], empty_line)"
    by simp_all
  show ?thesis
    using drift_run_merged [where seq = three_drifts, OF a1 a2 a3 drift_el_record a5 a6 a7]
  proof (elim exE conjE)
    fix m v x w
    assume t: "mtype m = ''drift''"
      and nm: "name m = prefixed merging_loader (el_name ?d)"
      and g: "getattr m ''l'' = Inr (V v)"
      and v: "value_of v = run_length (?d # ?rest)"
      and x: "xt_type x = ''Drift''" "xt_attrs x = [(''length'', V w)]"
      and w: "value_of w = run_length (?d # ?rest)"
      and c: "\<forall>pre post q0 l0 q1 l1.
              expanded_elements three_drifts = pre @ ?d # ?rest @ post
            \<and> make_line_loop merging_loader None pre Dummy empty_line = Inr (Dummy, q0, l0)
            \<and> process_items merging_loader None (flush Dummy) l0 = Inr (q1, l1)
            \<longrightarrow> (post = [] \<longrightarrow>
                   make_line merging_loader three_drifts (\<lambda>t. Num 0)
                     = Inr (q0 @ q1, append_element l1 x (generate_repeated_name l1 (name m))))
               \<and> (\<forall>p ps. post = p # ps \<and> survives merging_loader None p \<longrightarrow>
                     (\<exists>mp. make_line_loop merging_loader None (pre @ ?d # ?rest @ [p])
                              Dummy empty_line
                             = Inr (Elem mp, q0 @ q1,
                                    append_element l1 x (generate_repeated_name l1 (name m)))))"
      and i: "Dummy = Dummy \<and> expanded_elements three_drifts = ?d # ?rest \<longrightarrow>
            iter_elements merging_loader three_drifts None = Inr [Elem m]"
    from i q' have i': "iter_elements merging_loader three_drifts None = Inr [Elem m]"
      by simp
    from nm n have nm': "name m = ''d1''" by simp
    from c have "expanded_elements three_drifts = [] @ ?d # ?rest @ []
            \<and> make_line_loop merging_loader None [] Dummy empty_line = Inr (Dummy, [], empty_line)
            \<and> process_items merging_loader None (flush Dummy) empty_line = Inr ([], empty_line)
            \<longrightarrow> (([] :: cpy_elem list) = [] \<longrightarrow>
                   make_line merging_loader three_drifts (\<lambda>t. Num 0)
                     = Inr ([] @ [], append_element empty_line x
                                       (generate_repeated_name empty_line (name m))))"
      by blast
    with q b have "make_line merging_loader three_drifts (\<lambda>t. Num 0)
        = Inr ([] @ [], append_element empty_line x (generate_repeated_name empty_line (name m)))"
      by blast
    then have ml: "make_line merging_loader three_drifts (\<lambda>t. Num 0)
        = Inr ([], \<lparr> element_dict = [(''d1'', x)], element_names = [''d1''],
                     compound_container = [] \<rparr>)"
      by (simp add: generate_repeated_name_empty [unfolded empty_line_def] nm' append_element_def
          empty_line_def)
    from v r have v': "value_of v = 7 / 2" by simp
    from w r have w': "value_of w = 7 / 2" by simp
    show ?thesis
      apply (rule exI [of _ m], rule exI [of _ v], rule exI [of _ x], rule exI [of _ w])
      apply (intro conjI)
      apply (rule i', rule nm', rule t, rule g, rule v', rule ml, rule x(1), rule x(2), rule w')
      done
  qed
qed

end
